theory Spec2Isabelle
  imports Main "HOL-Library.Multiset" "HOL-Library.Option_ord"
begin

section \<open>Python strings\<close>

text \<open>
  Paths are Python \<open>str\<close> values, modelled as \<open>string\<close>. The source uses
  \<open>str.split("/")\<close>, \<open>"/".join\<close> and \<open>str.replace\<close>; they are defined here as
  Python computes them. \<open>py_split\<close> never returns the empty list: the split of the empty
  string is the list holding the empty string.
\<close>

fun py_split :: "char \<Rightarrow> string \<Rightarrow> string list" where
  "py_split c [] = [[]]"
| "py_split c (x # xs) =
     (if x = c then [] # py_split c xs
      else (case py_split c xs of
              [] \<Rightarrow> [[x]]
            | w # ws \<Rightarrow> (x # w) # ws))"

fun py_join :: "string \<Rightarrow> string list \<Rightarrow> string" where
  "py_join sep [] = []"
| "py_join sep [w] = w"
| "py_join sep (w # v # ws) = w @ sep @ py_join sep (v # ws)"

text \<open>The hardening marker, a single quote, and the separator.\<close>

abbreviation hm :: string where
  "hm \<equiv> [CHR 0x27]"

abbreviation slash :: char where
  "slash \<equiv> CHR ''/''"

text \<open>
  \<open>str.replace(old, new)\<close> replaces every occurrence of \<open>old\<close>, scanning from the left
  and continuing after each replaced occurrence. With the empty \<open>old\<close> Python puts \<open>new\<close>
  before every character and at the end.
\<close>

fun replace_scan :: "string \<Rightarrow> string \<Rightarrow> string \<Rightarrow> string" where
  "replace_scan [] new s = new @ concat (map (\<lambda>c. c # new) s)"
| "replace_scan (a # old) new [] = []"
| "replace_scan (a # old) new (c # cs) =
     (if take (Suc (length old)) (c # cs) = a # old
      then new @ replace_scan (a # old) new (drop (length old) cs)
      else c # replace_scan (a # old) new cs)"

definition py_replace :: "string \<Rightarrow> string \<Rightarrow> string \<Rightarrow> string" where
  "py_replace s old new = replace_scan old new s"

text \<open>\<open>str(n)\<close> and \<open>"%d" % n\<close> for an integer: the decimal numeral, with a minus sign.\<close>

definition digit_char :: "nat \<Rightarrow> char" where
  "digit_char n = ''0123456789'' ! (n mod 10)"

fun str_nat :: "nat \<Rightarrow> string" where
  "str_nat n = (if n < 10 then [digit_char n] else str_nat (n div 10) @ [digit_char n])"

declare str_nat.simps [simp del]

definition str_int :: "int \<Rightarrow> string" where
  "str_int i = (if i < 0 then CHR ''-'' # str_nat (nat (- i)) else str_nat (nat i))"

text \<open>
  \<open>str.isdigit()\<close> on the characters of this model (bytes): the string is not empty and
  holds decimal digits only. \<open>digits_value\<close> is the number such a string denotes.
\<close>

definition is_digit :: "char \<Rightarrow> bool" where
  "is_digit c = (c \<in> set ''0123456789'')"

definition isdigit :: "string \<Rightarrow> bool" where
  "isdigit s = (s \<noteq> [] \<and> list_all is_digit s)"

definition digit_value :: "char \<Rightarrow> int" where
  "digit_value c = int (of_char c) - 48"

definition digits_value :: "string \<Rightarrow> int" where
  "digits_value s = foldl (\<lambda>acc c. 10 * acc + digit_value c) 0 s"

section \<open>Errors\<close>

text \<open>
  The source raises \<open>WalletError\<close> with a message; the specification names the kinds.
  Each constructor stands for one raise statement (or one Python runtime error) of
  \<open>wallets.py\<close>.
\<close>

datatype error =
    InvalidPath            \<comment> \<open>"Could not parse path. Index is empty." / "Not a valid BIP0044 path ..."\<close>
  | WalletNotFound         \<comment> \<open>"Wallet '%s' not found"\<close>
  | ForceDeleteRequired    \<comment> \<open>"Key %d (%s) still has unspent outputs. Use 'force=True' ..."\<close>
  | DepthMismatch          \<comment> \<open>"Key depth of %d does not match path lenght of %d for path %s"\<close>
  | PurposeMismatch        \<comment> \<open>"Cannot create key with different purpose field ..."\<close>
  | CointypeMismatch       \<comment> \<open>"Multiple cointypes per wallet are not supported ..."\<close>
  | UnhardenedPath         \<comment> \<open>"Cointype, purpose and account must be hardened ..."\<close>
  | AccountExists          \<comment> \<open>"Account with ID %d already exists for this wallet"\<close>
  | MissingMasterKey       \<comment> \<open>"No key found for this wallet_id, network and purpose. ..."\<close>
  | InsufficientFunds      \<comment> \<open>"Not enough unspent transaction outputs found"\<close>
  | UnsupportedOperation   \<comment> \<open>"This is not implemented yet"\<close>
  | KeyNotFound            \<comment> \<open>"Key with id %s cdnot found" / KeyError "Key '%s' not found"\<close>
  | KeyDerivationError     \<comment> \<open>an error raised inside the external HDKey class\<close>
  | TransactionError       \<comment> \<open>an error raised inside the external Transaction class\<close>
  | MultipleResultsFound   \<comment> \<open>SQLAlchemy: \<open>scalar()\<close> on a query with more than one row\<close>
  | PyAttributeError       \<comment> \<open>attribute access on \<open>None\<close>\<close>
  | PyIndexError           \<comment> \<open>\<open>s[-1]\<close> on the empty string\<close>
  | PyTypeError            \<comment> \<open>arithmetic or \<open>%d\<close> formatting on \<open>None\<close>\<close>
  | PyValueError           \<comment> \<open>\<open>int(s)\<close> on a string that is no integer literal\<close>
  | DuplicateWalletName    \<comment> \<open>"Wallet with name '%s' already exists"\<close>
  | InvalidMasterKeyDepth  \<comment> \<open>"Cannot create new wallet with main key of depth 5 or more"\<close>

section \<open>Path algebra\<close>

text \<open>
  \<open>normalize_path\<close>, lines 113--131. The loop over the levels appends each rewritten
  level and a slash to \<open>npath\<close>, and raises on an empty level; the last slash is cut
  afterwards.
\<close>

definition normalize_level :: "string \<Rightarrow> string" where
  "normalize_level level =
     (if last level \<in> set (hm @ ''HhPp'') then butlast level @ hm else level)"

fun normalize_loop :: "string list \<Rightarrow> string \<Rightarrow> error + string" where
  "normalize_loop [] npath = Inr npath"
| "normalize_loop (level # levels) npath =
     (if level = [] then Inl InvalidPath
      else normalize_loop levels (npath @ normalize_level level @ [slash]))"

definition normalize_path :: "string \<Rightarrow> error + string" where
  "normalize_path path =
     (case normalize_loop (py_split slash path) [] of
        Inl e \<Rightarrow> Inl e
      | Inr npath \<Rightarrow>
          if npath = [] then Inl PyIndexError
          else Inr (if last npath = slash then butlast npath else npath))"

section \<open>The store\<close>

text \<open>
  The table classes \<open>DbWallet\<close>, \<open>DbKey\<close> and \<open>DbTransaction\<close> are declared in
  \<open>bitcoinlib/db.py\<close>; the columns below are the ones \<open>wallets.py\<close> reads and writes.
  A table is the list of its rows in insertion order, which is the order an unordered
  query returns them in. A nullable column the source compares with \<open>None\<close> is an option.
\<close>

record DbWallet =
  w_id :: int
  w_name :: string
  w_owner :: string
  w_network_name :: string
  w_purpose :: int
  w_main_key_id :: "int option"
  w_balance :: int

record DbKey =
  k_id :: int
  k_name :: string
  k_wallet_id :: int
  k_key :: string
  k_purpose :: int
  k_account_id :: "int option"
  k_depth :: int
  k_change :: int
  k_address_index :: int
  k_key_wif :: string
  k_address :: string
  k_parent_id :: int
  k_is_private :: bool
  k_path :: string
  k_key_type :: string
  k_balance :: int

record DbTransaction =
  t_key_id :: int
  t_tx_hash :: string
  t_confirmations :: int
  t_output_n :: int
  t_index :: int
  t_value :: int
  t_script :: string
  t_spend :: bool

record db =
  wallets :: "DbWallet list"
  keys :: "DbKey list"
  transactions :: "DbTransaction list"

text \<open>
  Query results. \<open>first()\<close> is the first row or \<open>None\<close>; \<open>scalar()\<close> is the only row,
  \<open>None\<close> on no row, and raises on more than one.
\<close>

definition first :: "'a list \<Rightarrow> 'a option" where
  "first rows = (case rows of [] \<Rightarrow> None | r # _ \<Rightarrow> Some r)"

definition scalar :: "'a list \<Rightarrow> error + 'a option" where
  "scalar rows =
     (case rows of
        [] \<Rightarrow> Inr None
      | [r] \<Rightarrow> Inr (Some r)
      | _ # _ # _ \<Rightarrow> Inl MultipleResultsFound)"

section \<open>Deleting a wallet\<close>

text \<open>
  \<open>delete_wallet\<close>, lines 81--110. The wallet is given by id (an integer, or a string of
  digits) or by name. The loop over the wallet's keys raises at the first key with a
  cached balance when \<open>force\<close> is not set; then the key rows and the wallet rows of the
  two queries are deleted. No statement of the function touches the table of
  transactions. The result is the number of wallet rows deleted.
\<close>

datatype wallet_ref = WalletId int | WalletName string

definition wallet_query :: "db \<Rightarrow> wallet_ref \<Rightarrow> DbWallet list" where
  "wallet_query d wallet =
     (case wallet of
        WalletId n \<Rightarrow> filter (\<lambda>x. w_id x = n) (wallets d)
      | WalletName s \<Rightarrow>
          if isdigit s then filter (\<lambda>x. w_id x = digits_value s) (wallets d)
          else filter (\<lambda>x. w_name x = s) (wallets d))"

fun check_balances :: "bool \<Rightarrow> DbKey list \<Rightarrow> error + unit" where
  "check_balances force [] = Inr ()"
| "check_balances force (k # ks) =
     (if \<not> force \<and> k_balance k \<noteq> 0 then Inl ForceDeleteRequired
      else check_balances force ks)"

definition delete_wallet :: "db \<Rightarrow> wallet_ref \<Rightarrow> bool \<Rightarrow> (error + nat) \<times> db" where
  "delete_wallet d wallet force =
     (let w = wallet_query d wallet in
      case first w of
        None \<Rightarrow> (Inl WalletNotFound, d)
      | Some w0 \<Rightarrow>
          (let ks = filter (\<lambda>k. k_wallet_id k = w_id w0) (keys d) in
           case check_balances force ks of
             Inl e \<Rightarrow> (Inl e, d)
           | Inr _ \<Rightarrow>
               (Inr (length w),
                d\<lparr>keys := filter (\<lambda>k. k_wallet_id k \<noteq> w_id w0) (keys d),
                  wallets := filter (\<lambda>x. x \<notin> set w) (wallets d)\<rparr>)))"

section \<open>Coin selection\<close>

text \<open>
  \<open>HDWallet._select_inputs\<close>, lines 717--739. \<open>utxo_query\<close> is \<open>None\<close> or a query, here
  the list of rows the query yields. \<open>order_by(DbTransaction.value)\<close> is a stable sort of
  the rows (rows of equal value stay in table order), \<open>order_by(value.desc())\<close> a stable
  sort on the negated value. The function returns the empty list where it finds no
  selection; its caller raises on it.
\<close>

definition order_by_value :: "DbTransaction list \<Rightarrow> DbTransaction list" where
  "order_by_value rows = sort_key t_value rows"

definition order_by_value_desc :: "DbTransaction list \<Rightarrow> DbTransaction list" where
  "order_by_value_desc rows = sort_key (\<lambda>t. - t_value t) rows"

fun select_loop ::
  "int \<Rightarrow> DbTransaction list \<Rightarrow> int \<Rightarrow> DbTransaction list \<Rightarrow> int \<times> DbTransaction list" where
  "select_loop amount [] total_amount selected_utxos = (total_amount, selected_utxos)"
| "select_loop amount (utxo # lessers) total_amount selected_utxos =
     (if total_amount < amount
      then select_loop amount lessers (total_amount + t_value utxo) (selected_utxos @ [utxo])
      else select_loop amount lessers total_amount selected_utxos)"

definition select_inputs :: "int \<Rightarrow> DbTransaction list option \<Rightarrow> DbTransaction list" where
  "select_inputs amount utxo_query =
     (case utxo_query of
        None \<Rightarrow> []
      | Some q \<Rightarrow>
          (case order_by_value (filter (\<lambda>t. \<not> t_spend t \<and> amount \<le> t_value t) q) of
             one_utxo # _ \<Rightarrow> [one_utxo]
           | [] \<Rightarrow>
               (let lessers =
                      order_by_value_desc (filter (\<lambda>t. \<not> t_spend t \<and> t_value t < amount) q);
                    (total_amount, selected_utxos) = select_loop amount lessers 0 []
                in if total_amount < amount then [] else selected_utxos)))"

section \<open>Key material and wallet objects\<close>

text \<open>
  The class \<open>HDKey\<close> (\<open>bitcoinlib/keys.py\<close>) and the class \<open>Network\<close>
  (\<open>bitcoinlib/networks.py\<close>) are not among the sources. An \<open>HDKey\<close> object is the
  record of the attributes \<open>wallets.py\<close> reads from it; its methods and the network
  table are parameters, collected in \<open>keylib\<close> and passed to every function that calls
  them:
  \<^item> \<open>subkey_for_path\<close> is \<open>HDKey.subkey_for_path\<close>, called with one path level;
  \<^item> \<open>HDKey_import\<close> is the constructor \<open>HDKey(import_key=key, network=network)\<close>;
  \<^item> \<open>bip44_cointype\<close> is \<open>Network(name).bip44_cointype\<close>, where \<open>name\<close> may be \<open>None\<close>;
  \<^item> \<open>check_network_and_key\<close> and \<open>DEFAULT_NETWORK\<close> are the imported names.
\<close>

record HDKey =
  hd_extended_wif :: string
  hd_key_hex :: string
  hd_depth :: int
  hd_child_index :: int
  hd_address :: string
  hd_key_type :: string

record keylib =
  subkey_for_path :: "HDKey \<Rightarrow> string \<Rightarrow> error + HDKey"
  HDKey_import :: "string \<Rightarrow> string \<Rightarrow> error + HDKey"
  bip44_cointype :: "string option \<Rightarrow> int"
  check_network_and_key :: "string \<Rightarrow> string option \<Rightarrow> error + string"
  DEFAULT_NETWORK :: string

text \<open>
  \<open>HDWalletKey\<close>, lines 158--256: the constructor loads the row with the given id and
  keeps the \<open>HDKey\<close> object it is given; \<open>key()\<close> returns that object, or imports the
  stored serialised key when there is none. The import is a function of the stored
  row, so the object \<open>key()\<close> caches is not kept in the model.
\<close>

record HDWalletKey =
  hk_key_id :: int
  hk_dbkey :: DbKey
  hk_network_name :: string
  hk_hdkey_object :: "HDKey option"

definition HDWalletKey_init :: "db \<Rightarrow> int \<Rightarrow> HDKey option \<Rightarrow> error + HDWalletKey" where
  "HDWalletKey_init d key_id hdkey_object =
     (case first (filter (\<lambda>k. k_id k = key_id) (keys d)) of
        None \<Rightarrow> Inl KeyNotFound
      | Some wk \<Rightarrow>
          (case first (filter (\<lambda>x. w_id x = k_wallet_id wk) (wallets d)) of
             None \<Rightarrow> Inl PyAttributeError
           | Some w \<Rightarrow>
               Inr \<lparr>hk_key_id = key_id, hk_dbkey = wk, hk_network_name = w_network_name w,
                    hk_hdkey_object = hdkey_object\<rparr>))"

definition HDWalletKey_key :: "keylib \<Rightarrow> HDWalletKey \<Rightarrow> error + HDKey" where
  "HDWalletKey_key lib hk =
     (case hk_hdkey_object hk of
        Some k \<Rightarrow> Inr k
      | None \<Rightarrow> HDKey_import lib (k_key_wif (hk_dbkey hk)) (hk_network_name hk))"

text \<open>
  The attributes of an open \<open>HDWallet\<close>, lines 388--413. \<open>hw_key_objects\<close> is the
  dictionary \<open>_key_objects\<close>: an association list whose first entry for an id is the
  current one.
\<close>

record HDWallet =
  hw_wallet_id :: int
  hw_name :: string
  hw_purpose :: int
  hw_network_name :: string
  hw_balance :: int
  hw_main_key_id :: int
  hw_main_key :: HDWalletKey
  hw_default_account_id :: int
  hw_key_objects :: "(int \<times> HDWalletKey) list"

section \<open>The key node store\<close>

text \<open>
  A new row gets the id the store assigns: one more than the largest id of the table,
  and 1 in an empty table (ids are positive).
\<close>

definition next_key_id :: "db \<Rightarrow> int" where
  "next_key_id d = fold max (map k_id (keys d)) 0 + 1"

definition next_wallet_id :: "db \<Rightarrow> int" where
  "next_wallet_id d = fold max (map w_id (wallets d)) 0 + 1"

text \<open>
  \<open>HDWalletKey.from_key\<close>, lines 164--215. The result is the wallet key and the store,
  which holds one more row when the key was new. \<open>network\<close> is \<open>None\<close> or a name;
  \<open>network1\<close> is the variable \<open>network\<close> after line 184, which replaces \<open>None\<close> by the
  default only when no \<open>HDKey\<close> object was given.
\<close>

definition from_key ::
  "keylib \<Rightarrow> db \<Rightarrow> string \<Rightarrow> int \<Rightarrow> string \<Rightarrow> HDKey option \<Rightarrow> int option \<Rightarrow> string option \<Rightarrow>
   int \<Rightarrow> int \<Rightarrow> int \<Rightarrow> string \<Rightarrow> (error + HDWalletKey) \<times> db" where
  "from_key lib d name wallet_id key hdkey_object account_id network change purpose parent_id
     path =
     (case (case hdkey_object of
              None \<Rightarrow>
                (let n = (case network of None \<Rightarrow> DEFAULT_NETWORK lib | Some n \<Rightarrow> n) in
                 case HDKey_import lib key n of
                   Inl e \<Rightarrow> Inl e
                 | Inr k \<Rightarrow> Inr (k, Some n))
            | Some k \<Rightarrow> Inr (k, network)) of
        Inl e \<Rightarrow> (Inl e, d)
      | Inr (k, network1) \<Rightarrow>
          (case first (filter (\<lambda>r. k_key_wif r = hd_extended_wif k) (keys d)) of
             Some keyexists \<Rightarrow> (HDWalletKey_init d (k_id keyexists) (Some k), d)
           | None \<Rightarrow>
               (case (if hd_depth k \<noteq> int (length (py_split slash path)) - 1
                      then (if path = ''m'' \<and> hd_depth k = 3
                            then (case account_id of
                                    None \<Rightarrow> Inl PyTypeError
                                  | Some a \<Rightarrow>
                                      Inr (''m/'' @ str_int purpose @ hm @ ''/''
                                           @ str_int (bip44_cointype lib network1) @ hm @ ''/''
                                           @ str_int a @ hm))
                            else Inl DepthMismatch)
                      else Inr path) of
                  Inl e \<Rightarrow> (Inl e, d)
                | Inr path1 \<Rightarrow>
                    (case first (filter (\<lambda>r. k_key r = hd_key_hex k
                                           \<or> k_key_wif r = hd_extended_wif k) (keys d)) of
                       Some wk \<Rightarrow> (HDWalletKey_init d (k_id wk) (Some k), d)
                     | None \<Rightarrow>
                         (let nk = \<lparr>k_id = next_key_id d, k_name = name,
                                    k_wallet_id = wallet_id, k_key = hd_key_hex k,
                                    k_purpose = purpose, k_account_id = account_id,
                                    k_depth = hd_depth k, k_change = change,
                                    k_address_index = hd_child_index k,
                                    k_key_wif = hd_extended_wif k, k_address = hd_address k,
                                    k_parent_id = parent_id, k_is_private = True,
                                    k_path = path1, k_key_type = hd_key_type k,
                                    k_balance = 0\<rparr>;
                              d1 = d\<lparr>keys := keys d @ [nk]\<rparr>
                          in (HDWalletKey_init d1 (k_id nk) (Some k), d1))))))"

text \<open>\<open>HDWalletKey.from_key_object\<close>, lines 217--224.\<close>

definition from_key_object ::
  "keylib \<Rightarrow> db \<Rightarrow> HDKey \<Rightarrow> string \<Rightarrow> int \<Rightarrow> int option \<Rightarrow> string option \<Rightarrow> int \<Rightarrow> int \<Rightarrow> int \<Rightarrow>
   string \<Rightarrow> (error + HDWalletKey) \<times> db" where
  "from_key_object lib d hdkey_object name wallet_id account_id network change purpose
     parent_id path =
     from_key lib d name wallet_id [] (Some hdkey_object) account_id network change purpose
       parent_id path"

text \<open>
  \<open>HDWallet.__init__\<close>, lines 388--413: the wallet row is found by id or name, the main
  key is loaded, and \<open>_key_objects\<close> starts with the main key.
\<close>

definition HDWallet_init :: "db \<Rightarrow> wallet_ref \<Rightarrow> HDKey option \<Rightarrow> error + HDWallet" where
  "HDWallet_init d wallet main_key_object =
     (case scalar (wallet_query d wallet) of
        Inl e \<Rightarrow> Inl e
      | Inr None \<Rightarrow> Inl WalletNotFound
      | Inr (Some w) \<Rightarrow>
          (case w_main_key_id w of
             None \<Rightarrow> Inl KeyNotFound
           | Some mid \<Rightarrow>
               (case HDWalletKey_init d mid main_key_object of
                  Inl e \<Rightarrow> Inl e
                | Inr mk \<Rightarrow>
                    Inr \<lparr>hw_wallet_id = w_id w, hw_name = w_name w, hw_purpose = w_purpose w,
                         hw_network_name = w_network_name w, hw_balance = w_balance w,
                         hw_main_key_id = mid, hw_main_key = mk,
                         hw_default_account_id = 0,
                         hw_key_objects = [(mid, mk)]\<rparr>)))"

text \<open>
  \<open>HDWallet.key\<close>, lines 603--625, for a numeric search term (every call in this file
  passes the id of a row). When no row has the id, the searches by address, serialised
  key and name compare the number with text columns and find no row.
\<close>

definition wallet_key :: "HDWallet \<Rightarrow> db \<Rightarrow> int \<Rightarrow> error + HDWalletKey" where
  "wallet_key self d key_id =
     (case scalar (filter (\<lambda>k. k_id k = key_id) (keys d)) of
        Inl e \<Rightarrow> Inl e
      | Inr None \<Rightarrow> Inl KeyNotFound
      | Inr (Some dbkey) \<Rightarrow>
          (case map_of (hw_key_objects self) (k_id dbkey) of
             Some obj \<Rightarrow> Inr obj
           | None \<Rightarrow> HDWalletKey_init d (k_id dbkey) None))"

text \<open>
  \<open>HDWallet.keys\<close>, lines 587--601: the filters are added to the query one after the
  other, in the order of the source. The arguments are in the order of the source:
  \<open>account_id\<close>, \<open>name\<close>, \<open>key_id\<close>, \<open>change\<close>, \<open>depth\<close>.
\<close>

definition wallet_keys ::
  "HDWallet \<Rightarrow> db \<Rightarrow> int option \<Rightarrow> string option \<Rightarrow> int option \<Rightarrow> int option \<Rightarrow> int option \<Rightarrow>
   DbKey list" where
  "wallet_keys self d account_id name key_id change depth =
     (let qr = filter (\<lambda>k. k_wallet_id k = hw_wallet_id self \<and> k_purpose k = hw_purpose self)
                 (keys d);
          qr = (case account_id of
                  None \<Rightarrow> qr
                | Some a \<Rightarrow>
                    filter (\<lambda>k. 3 < k_depth k) (filter (\<lambda>k. k_account_id k = Some a) qr));
          qr = (case change of
                  None \<Rightarrow> qr
                | Some c \<Rightarrow> filter (\<lambda>k. 4 < k_depth k) (filter (\<lambda>k. k_change k = c) qr));
          qr = (case depth of None \<Rightarrow> qr | Some n \<Rightarrow> filter (\<lambda>k. k_depth k = n) qr);
          qr = (case name of None \<Rightarrow> qr | Some n \<Rightarrow> filter (\<lambda>k. k_name k = n) qr);
          qr = (case key_id of None \<Rightarrow> qr | Some i \<Rightarrow> filter (\<lambda>k. k_id k = i) qr)
      in qr)"

text \<open>
  The search for the closest ancestor, lines 360--365 and 562--567: the loop queries the
  wallet's key with the path \<open>spath\<close> and cuts the last level off, until a row is found
  or the path is empty. Each round shortens the path, which is why the loop ends.
\<close>

lemma py_split_nonempty: "py_split c s \<noteq> []"
  by (induction s) (auto split: list.splits)

lemma py_join_split: "py_join [c] (py_split c s) = s"
proof (induction s)
  case Nil
  then show ?case by simp
next
  case (Cons x xs)
  obtain w ws where ws: "py_split c xs = w # ws"
    using py_split_nonempty[of c xs] by (cases "py_split c xs") auto
  with Cons show ?case by (cases ws) auto
qed

lemma py_join_butlast_shorter:
  "py_join [c] ws \<noteq> [] \<Longrightarrow> length (py_join [c] (butlast ws)) < length (py_join [c] ws)"
proof (induction ws rule: induct_list012)
  case 1
  then show ?case by simp
next
  case (2 w)
  then show ?case by simp
next
  case (3 w v ws)
  show ?case
  proof (cases ws)
    case Nil
    then show ?thesis by simp
  next
    case (Cons u us)
    then have "py_join [c] (v # ws) \<noteq> []" by simp
    with 3 have "length (py_join [c] (butlast (v # ws))) < length (py_join [c] (v # ws))"
      by blast
    with Cons show ?thesis by simp
  qed
qed

lemma cut_last_level_shorter:
  "s \<noteq> [] \<Longrightarrow> length (py_join [c] (butlast (py_split c s))) < length s"
  using py_join_butlast_shorter[of c "py_split c s"] by (simp add: py_join_split)

function closest_ancestor :: "DbKey list \<Rightarrow> int \<Rightarrow> string \<Rightarrow> DbKey option" where
  "closest_ancestor ks wallet_id spath =
     (if spath = [] then None
      else (case first (filter (\<lambda>k. k_wallet_id k = wallet_id \<and> k_path k = spath) ks) of
              Some rkey \<Rightarrow> Some rkey
            | None \<Rightarrow>
                closest_ancestor ks wallet_id
                  (py_join ''/'' (butlast (py_split slash spath)))))"
  by pat_completeness auto
termination
  by (relation "measure (\<lambda>(ks, wallet_id, spath). length spath)")
     (auto simp: cut_last_level_shorter)

declare closest_ancestor.simps [simp del]

text \<open>
  \<open>HDWallet._create_keys_from_path\<close>, lines 349--383. \<open>create_loop\<close> is the loop of
  lines 373--381: \<open>done\<close> holds the levels already derived, so that \<open>done @ [level]\<close> is
  \<open>path[:l+1]\<close>; \<open>ck\<close>, \<open>nk\<close> and \<open>parent_id\<close> are the variables of the source. The
  result is the last wallet key, the wallet object with its updated \<open>_key_objects\<close>,
  and the store; an error leaves the rows inserted before it in the store, since every
  insertion is committed.
\<close>

fun create_loop ::
  "keylib \<Rightarrow> string \<Rightarrow> int \<Rightarrow> int option \<Rightarrow> string \<Rightarrow> int \<Rightarrow> int \<Rightarrow> string \<Rightarrow>
   string list \<Rightarrow> string list \<Rightarrow> HDKey \<Rightarrow> HDWalletKey \<Rightarrow> int \<Rightarrow> HDWallet \<Rightarrow> db \<Rightarrow>
   (error + HDWalletKey) \<times> HDWallet \<times> db" where
  "create_loop lib name wallet_id account_id network change purpose basepath
     done [] ck nk parent_id self d = (Inr nk, self, d)"
| "create_loop lib name wallet_id account_id network change purpose basepath
     done (level # rest) ck nk parent_id self d =
     (let pp = py_join ''/'' (done @ [level]);
          fullpath = basepath @ pp
      in case subkey_for_path lib ck level of
           Inl e \<Rightarrow> (Inl e, self, d)
         | Inr ck1 \<Rightarrow>
             (case from_key_object lib d ck1 name wallet_id account_id (Some network) change
                     purpose parent_id fullpath of
                (Inl e, d1) \<Rightarrow> (Inl e, self, d1)
              | (Inr nk1, d1) \<Rightarrow>
                  create_loop lib name wallet_id account_id network change purpose basepath
                    (done @ [level]) rest ck1 nk1 (hk_key_id nk1)
                    (self\<lparr>hw_key_objects := (hk_key_id nk1, nk1) # hw_key_objects self\<rparr>)
                    d1))"

definition create_keys_from_path ::
  "keylib \<Rightarrow> HDWallet \<Rightarrow> db \<Rightarrow> HDWalletKey \<Rightarrow> string list \<Rightarrow> int \<Rightarrow> int option \<Rightarrow> string \<Rightarrow>
   string \<Rightarrow> string \<Rightarrow> int \<Rightarrow> int \<Rightarrow> (error + HDWalletKey) \<times> HDWallet \<times> db" where
  "create_keys_from_path lib self d parent path wallet_id account_id network name basepath
     change purpose =
     (let parent_id = 0;
          nk = parent
      in case HDWalletKey_key lib nk of
           Inl e \<Rightarrow> (Inl e, self, d)
         | Inr ck \<Rightarrow>
             (let basepath1 = (if basepath \<noteq> [] \<and> last basepath \<noteq> slash
                               then basepath @ ''/'' else basepath);
                  spath = basepath1 @ py_join ''/'' path;
                  rkey = closest_ancestor (keys d) wallet_id spath
              in case (case rkey of
                         None \<Rightarrow> Inr (path, basepath1, nk, ck)
                       | Some r \<Rightarrow>
                           if k_path r \<notin> set [basepath1, butlast basepath1]
                           then (case wallet_key self d (k_id r) of
                                   Inl e \<Rightarrow> Inl e
                                 | Inr nk1 \<Rightarrow>
                                     (case HDWalletKey_key lib nk1 of
                                        Inl e \<Rightarrow> Inl e
                                      | Inr ck1 \<Rightarrow>
                                          Inr (py_split slash
                                                 (py_replace (basepath1 @ py_join ''/'' path)
                                                    (k_path r @ ''/'') []),
                                               k_path r @ ''/'', nk1, ck1)))
                           else Inr (path, basepath1, nk, ck)) of
                   Inl e \<Rightarrow> (Inl e, self, d)
                 | Inr (path2, basepath2, nk2, ck2) \<Rightarrow>
                     create_loop lib name wallet_id account_id network change purpose
                       basepath2 [] path2 ck2 nk2 parent_id self d))"

section \<open>Wallet manager\<close>

text \<open>
  \<open>HDWallet.new_account\<close>, lines 509--541, with the arguments \<open>name\<close> and
  \<open>account_id\<close> of the source. \<open>order_by(DbKey.account_id.desc()).first()\<close> is the first
  row of the rows sorted by descending account id, a missing account id being the
  smallest; only the account id of that row is read.
\<close>

definition order_by_account_id_desc :: "DbKey list \<Rightarrow> DbKey list" where
  "order_by_account_id_desc rows = rev (sort_key k_account_id rows)"

definition next_account_id :: "HDWallet \<Rightarrow> db \<Rightarrow> error + int" where
  "next_account_id self d =
     (case first (order_by_account_id_desc
                    (filter (\<lambda>k. k_wallet_id k = hw_wallet_id self
                                \<and> k_purpose k = hw_purpose self) (keys d))) of
        None \<Rightarrow> Inl PyAttributeError
      | Some r \<Rightarrow>
          (case k_account_id r of
             None \<Rightarrow> Inl PyTypeError
           | Some last_id \<Rightarrow> Inr (last_id + 1)))"

definition new_account ::
  "keylib \<Rightarrow> HDWallet \<Rightarrow> db \<Rightarrow> string \<Rightarrow> int option \<Rightarrow> (error + HDWalletKey) \<times> HDWallet \<times> db" where
  "new_account lib self d name account_id =
     (case (case account_id of None \<Rightarrow> next_account_id self d | Some a \<Rightarrow> Inr a) of
        Inl e \<Rightarrow> (Inl e, self, d)
      | Inr account_id1 \<Rightarrow>
          (let name1 = (if name = [] then ''Account #'' @ str_int account_id1 else name) in
           if wallet_keys self d (Some account_id1) None None None (Some 3) \<noteq> []
           then (Inl AccountExists, self, d)
           else
             (case scalar (filter (\<lambda>k. k_wallet_id k = hw_wallet_id self
                                       \<and> k_purpose k = hw_purpose self \<and> k_depth k = 2)
                             (keys d)) of
                Inl e \<Rightarrow> (Inl e, self, d)
              | Inr None \<Rightarrow> (Inl MissingMasterKey, self, d)
              | Inr (Some accrootkey) \<Rightarrow>
                  (case wallet_key self d (k_id accrootkey) of
                     Inl e \<Rightarrow> (Inl e, self, d)
                   | Inr accrootkey_obj \<Rightarrow>
                       (case create_keys_from_path lib self d accrootkey_obj
                               [str_int account_id1 @ hm] (hw_wallet_id self) (Some account_id1)
                               (hw_network_name self) name1
                               (k_path (hk_dbkey accrootkey_obj)) 0 (hw_purpose self) of
                          (Inl e, self1, d1) \<Rightarrow> (Inl e, self1, d1)
                        | (Inr acckey, self1, d1) \<Rightarrow>
                            (case create_keys_from_path lib self1 d1 acckey [''0'']
                                    (hw_wallet_id self) (Some account_id1)
                                    (hw_network_name self)
                                    (k_name (hk_dbkey acckey) @ '' Payments'')
                                    (k_path (hk_dbkey acckey)) 0 (hw_purpose self) of
                               (Inl e, self2, d2) \<Rightarrow> (Inl e, self2, d2)
                             | (Inr _, self2, d2) \<Rightarrow>
                                 (case create_keys_from_path lib self2 d2 acckey [''1'']
                                         (hw_wallet_id self) (Some account_id1)
                                         (hw_network_name self)
                                         (k_name (hk_dbkey acckey) @ '' Change'')
                                         (k_path (hk_dbkey acckey)) 0 (hw_purpose self) of
                                    (Inl e, self3, d3) \<Rightarrow> (Inl e, self3, d3)
                                  | (Inr _, self3, d3) \<Rightarrow> (Inr acckey, self3, d3))))))))"

text \<open>\<open>parse_bip44_path\<close>, lines 134--155.\<close>

record pathdict =
  pd_isprivate :: bool
  pd_purpose :: string
  pd_cointype :: string
  pd_account :: string
  pd_change :: string
  pd_address_index :: string

definition parse_bip44_path :: "string \<Rightarrow> error + pathdict" where
  "parse_bip44_path path =
     (case normalize_path path of
        Inl e \<Rightarrow> Inl e
      | Inr npath \<Rightarrow>
          (let pathl = py_split slash npath in
           if \<not> (0 < length pathl \<and> length pathl \<le> 6) then Inl InvalidPath
           else Inr \<lparr>pd_isprivate = (pathl ! 0 = ''m''),
                     pd_purpose = (if length pathl < 2 then [] else pathl ! 1),
                     pd_cointype = (if length pathl < 3 then [] else pathl ! 2),
                     pd_account = (if length pathl < 4 then [] else pathl ! 3),
                     pd_change = (if length pathl < 5 then [] else pathl ! 4),
                     pd_address_index = (if length pathl < 6 then [] else pathl ! 5)\<rparr>))"

text \<open>
  \<open>int(s)\<close> on a string: surrounding white space is dropped, a sign may come first,
  and the rest is decimal digits, where single underscores may stand between digits.
  Anything else raises \<open>ValueError\<close>.
\<close>

definition is_space :: "char \<Rightarrow> bool" where
  "is_space c = (c \<in> set [CHR '' '', CHR 0x09, CHR 0x0A, CHR 0x0B, CHR 0x0C, CHR 0x0D])"

definition strip :: "string \<Rightarrow> string" where
  "strip s = rev (dropWhile is_space (rev (dropWhile is_space s)))"

fun valid_digits :: "string \<Rightarrow> bool" where
  "valid_digits [] = False"
| "valid_digits [c] = is_digit c"
| "valid_digits (c # u # cs) =
     (is_digit c \<and> (if u = CHR ''_'' then valid_digits cs else valid_digits (u # cs)))"

definition py_int :: "string \<Rightarrow> error + int" where
  "py_int s =
     (let t = strip s;
          (neg, body) = (case t of
                           [] \<Rightarrow> (False, [])
                         | c # cs \<Rightarrow>
                             if c = CHR ''-'' then (True, cs)
                             else if c = CHR ''+'' then (False, cs)
                             else (False, t))
      in if valid_digits body
         then Inr ((if neg then - 1 else 1) * digits_value (filter (\<lambda>c. c \<noteq> CHR ''_'') body))
         else Inl PyValueError)"

text \<open>
  The validation of \<open>key_for_path\<close>, lines 545--558. The three tests of the last
  condition are evaluated in the order of the source (coin type, purpose, account) and
  each reads the last character of its level, which raises \<open>IndexError\<close> on an empty
  level.
\<close>

definition last_is_hardened :: "string \<Rightarrow> error + bool" where
  "last_is_hardened level = (if level = [] then Inl PyIndexError else Inr (last level = CHR 0x27))"

definition validate_key_path :: "keylib \<Rightarrow> HDWallet \<Rightarrow> string \<Rightarrow> error + unit" where
  "validate_key_path lib self path =
     (case parse_bip44_path path of
        Inl e \<Rightarrow> Inl e
      | Inr pathdict \<Rightarrow>
          (case (if pd_purpose pathdict = [] then Inr 0
                 else py_int (py_replace (pd_purpose pathdict) hm [])) of
             Inl e \<Rightarrow> Inl e
           | Inr purpose \<Rightarrow>
               if purpose \<noteq> hw_purpose self then Inl PurposeMismatch
               else
                 (case (if pd_cointype pathdict = [] then Inr 0
                        else py_int (py_replace (pd_cointype pathdict) hm [])) of
                    Inl e \<Rightarrow> Inl e
                  | Inr cointype \<Rightarrow>
                      if cointype \<noteq> bip44_cointype lib (Some (hw_network_name self))
                      then Inl CointypeMismatch
                      else
                        (case last_is_hardened (pd_cointype pathdict) of
                           Inl e \<Rightarrow> Inl e
                         | Inr False \<Rightarrow> Inl UnhardenedPath
                         | Inr True \<Rightarrow>
                             (case last_is_hardened (pd_purpose pathdict) of
                                Inl e \<Rightarrow> Inl e
                              | Inr False \<Rightarrow> Inl UnhardenedPath
                              | Inr True \<Rightarrow>
                                  (case last_is_hardened (pd_account pathdict) of
                                     Inl e \<Rightarrow> Inl e
                                   | Inr False \<Rightarrow> Inl UnhardenedPath
                                   | Inr True \<Rightarrow> Inr ()))))))"

text \<open>
  \<open>HDWallet.key_for_path\<close>, lines 543--585. Reading \<open>rkey.path\<close> when the search found
  no ancestor raises \<open>AttributeError\<close>; after that line \<open>rkey\<close> is a row.
\<close>

definition key_for_path ::
  "keylib \<Rightarrow> HDWallet \<Rightarrow> db \<Rightarrow> string \<Rightarrow> string \<Rightarrow> int \<Rightarrow> int \<Rightarrow> bool \<Rightarrow>
   (error + HDWalletKey) \<times> HDWallet \<times> db" where
  "key_for_path lib self d path name account_id change disable_check =
     (case (if \<not> disable_check then validate_key_path lib self path else Inr ()) of
        Inl e \<Rightarrow> (Inl e, self, d)
      | Inr _ \<Rightarrow>
          (let name1 = (if name = [] then hw_name self else name) in
           case normalize_path path of
             Inl e \<Rightarrow> (Inl e, self, d)
           | Inr spath \<Rightarrow>
               (case closest_ancestor (keys d) (hw_wallet_id self) spath of
                  None \<Rightarrow> (Inl PyAttributeError, self, d)
                | Some rkey \<Rightarrow>
                    if k_path rkey = path then (wallet_key self d (k_id rkey), self, d)
                    else
                      (let subpath = py_replace spath (k_path rkey @ ''/'') [];
                           basepath = k_path rkey
                       in case (if k_key_wif (hk_dbkey (hw_main_key self)) \<noteq> k_key_wif rkey
                                then wallet_key self d (k_id rkey)
                                else Inr (hw_main_key self)) of
                            Inl e \<Rightarrow> (Inl e, self, d)
                          | Inr parent_key \<Rightarrow>
                              create_keys_from_path lib self d parent_key
                                (py_split slash subpath) (hw_wallet_id self) (Some account_id)
                                (hw_network_name self) name1 basepath change
                                (hw_purpose self)))))"

text \<open>
  \<open>HDWallet.create\<close>, lines 314--347. The wallet row is committed before the main key
  is made, and its \<open>main_key_id\<close> before the wallet is opened; an error after that
  leaves those rows in the store.
\<close>

definition create ::
  "keylib \<Rightarrow> db \<Rightarrow> string \<Rightarrow> string \<Rightarrow> string \<Rightarrow> string option \<Rightarrow> int \<Rightarrow> int \<Rightarrow>
   (error + HDWallet) \<times> db" where
  "create lib d name key owner network account_id purpose =
     (if filter (\<lambda>x. w_name x = name) (wallets d) \<noteq> [] then (Inl DuplicateWalletName, d)
      else
        (case (if key \<noteq> [] then check_network_and_key lib key network
               else Inr (case network of None \<Rightarrow> DEFAULT_NETWORK lib | Some n \<Rightarrow> n)) of
           Inl e \<Rightarrow> (Inl e, d)
         | Inr network1 \<Rightarrow>
             (let new_wallet_id = next_wallet_id d;
                  new_wallet = \<lparr>w_id = new_wallet_id, w_name = name, w_owner = owner,
                                w_network_name = network1, w_purpose = purpose,
                                w_main_key_id = None, w_balance = 0\<rparr>;
                  d1 = d\<lparr>wallets := wallets d @ [new_wallet]\<rparr>
              in case from_key lib d1 name new_wallet_id key None (Some account_id)
                        (Some network1) 0 purpose 0 ''m'' of
                   (Inl e, d2) \<Rightarrow> (Inl e, d2)
                 | (Inr mk, d2) \<Rightarrow>
                     if 4 < k_depth (hk_dbkey mk) then (Inl InvalidMasterKeyDepth, d2)
                     else
                       (let d3 = d2\<lparr>wallets :=
                                      map (\<lambda>x. if w_id x = new_wallet_id
                                                then x\<lparr>w_main_key_id := Some (hk_key_id mk)\<rparr>
                                                else x) (wallets d2)\<rparr>
                        in case HDWalletKey_key lib mk of
                             Inl e \<Rightarrow> (Inl e, d3)
                           | Inr mko \<Rightarrow>
                               (case HDWallet_init d3 (WalletId new_wallet_id) (Some mko) of
                                  Inl e \<Rightarrow> (Inl e, d3)
                                | Inr w \<Rightarrow>
                                    if k_depth (hk_dbkey mk) = 0
                                    then
                                      (case create_keys_from_path lib w d3 mk
                                              [str_int purpose @ hm,
                                               str_int (bip44_cointype lib (Some network1))
                                                 @ hm]
                                              new_wallet_id (Some account_id) network1 name
                                              ''m'' 0 purpose of
                                         (Inl e, w1, d4) \<Rightarrow> (Inl e, d4)
                                       | (Inr _, w1, d4) \<Rightarrow>
                                           (case new_account lib w1 d4 [] (Some account_id) of
                                              (Inl e, w2, d5) \<Rightarrow> (Inl e, d5)
                                            | (Inr _, w2, d5) \<Rightarrow> (Inr w2, d5)))
                                    else (Inr w, d3))))))"

section \<open>Ledger synchronisation\<close>

text \<open>
  \<open>HDWallet.updateutxos\<close>, lines 650--691. The chain service is the parameter
  \<open>getutxos\<close>, from the list of addresses to the reported outputs; a reported output is
  the dictionary of the fields the source reads.

  The first filter of the deleting query is the Python expression
  \<open>DbTransaction.spend is False\<close>, an identity test of a column object with \<open>False\<close>; its
  value is \<open>False\<close>, so the query has the condition \<open>False\<close> beside the test on the
  account and selects no row. The result of \<open>qr.filter(DbTransaction.key_id == key_id)\<close>
  is dropped by the source and is not part of the query.

  In the loop, the count of stored rows with the reported transaction hash sees the rows
  added earlier in the same loop (the session flushes before a query).
\<close>

record utxo_dict =
  u_address :: string
  u_tx_hash :: string
  u_confirmations :: int
  u_output_n :: int
  u_index :: int
  u_value :: int
  u_script :: string

definition addresslist :: "HDWallet \<Rightarrow> db \<Rightarrow> int option \<Rightarrow> int option \<Rightarrow> string list" where
  "addresslist self d account_id key_id =
     map k_address (wallet_keys self d account_id None key_id None None)"

fun add_key_balance :: "(int \<times> int) list \<Rightarrow> int \<Rightarrow> int \<Rightarrow> (int \<times> int) list" where
  "add_key_balance [] kid v = [(kid, v)]"
| "add_key_balance ((k, b) # key_balances) kid v =
     (if k = kid then (k, b + v) # key_balances
      else (k, b) # add_key_balance key_balances kid v)"

fun utxo_loop ::
  "DbKey list \<Rightarrow> utxo_dict list \<Rightarrow> (int \<times> int) list \<Rightarrow> DbTransaction list \<Rightarrow> nat \<Rightarrow>
   error + (int \<times> int) list \<times> DbTransaction list \<times> nat" where
  "utxo_loop ks [] key_balances txs count_utxos = Inr (key_balances, txs, count_utxos)"
| "utxo_loop ks (utxo # utxos) key_balances txs count_utxos =
     (case scalar (filter (\<lambda>k. k_address k = u_address utxo) ks) of
        Inl e \<Rightarrow> Inl e
      | Inr None \<Rightarrow> Inl PyAttributeError
      | Inr (Some key) \<Rightarrow>
          (let key_balances1 = add_key_balance key_balances (k_id key) (u_value utxo) in
           if length (filter (\<lambda>t. t_tx_hash t = u_tx_hash utxo) txs) \<noteq> 0
           then utxo_loop ks utxos key_balances1 txs count_utxos
           else
             (let new_utxo = \<lparr>t_key_id = k_id key, t_tx_hash = u_tx_hash utxo,
                              t_confirmations = u_confirmations utxo,
                              t_output_n = u_output_n utxo, t_index = u_index utxo,
                              t_value = u_value utxo, t_script = u_script utxo,
                              t_spend = False\<rparr>
              in utxo_loop ks utxos key_balances1 (txs @ [new_utxo]) (count_utxos + 1))))"

fun balance_loop :: "(int \<times> int) list \<Rightarrow> DbKey list \<Rightarrow> int \<Rightarrow> error + DbKey list \<times> int" where
  "balance_loop [] ks total_balance = Inr (ks, total_balance)"
| "balance_loop ((kb, v) # key_balances) ks total_balance =
     (case scalar (filter (\<lambda>k. k_id k = kb) ks) of
        Inl e \<Rightarrow> Inl e
      | Inr None \<Rightarrow> Inl PyAttributeError
      | Inr (Some getkey) \<Rightarrow>
          balance_loop key_balances
            (map (\<lambda>k. if k_id k = kb then k\<lparr>k_balance := v\<rparr> else k) ks)
            (total_balance + v))"

definition updateutxos ::
  "(string list \<Rightarrow> utxo_dict list) \<Rightarrow> HDWallet \<Rightarrow> db \<Rightarrow> int option \<Rightarrow> int option \<Rightarrow>
   (error + unit) \<times> HDWallet \<times> db" where
  "updateutxos getutxos self d account_id key_id =
     (let qr = filter (\<lambda>t. False \<and> list_ex (\<lambda>k. k_id k = t_key_id t
                                                 \<and> k_account_id k = account_id) (keys d))
                 (transactions d);
          d1 = d\<lparr>transactions := filter (\<lambda>t. t \<notin> set qr) (transactions d)\<rparr>;
          utxos = getutxos (addresslist self d1 account_id key_id)
      in case utxo_loop (keys d1) utxos [] (transactions d1) 0 of
           Inl e \<Rightarrow> (Inl e, self, d1)
         | Inr (key_balances, txs, count_utxos) \<Rightarrow>
             (case balance_loop key_balances (keys d1) 0 of
                Inl e \<Rightarrow> (Inl e, self, d1)
              | Inr (ks, total_balance) \<Rightarrow>
                  (Inr (), self\<lparr>hw_balance := total_balance\<rparr>,
                   d1\<lparr>transactions := txs, keys := ks,
                      wallets := map (\<lambda>x. if w_id x = hw_wallet_id self
                                           then x\<lparr>w_balance := total_balance\<rparr> else x)
                                   (wallets d1)\<rparr>)))"

section \<open>Transaction assembly\<close>

text \<open>
  \<open>HDWallet.create_transaction\<close>, lines 741--800. The class \<open>Transaction\<close>
  (\<open>bitcoinlib/transactions.py\<close>) is not among the sources; its constructor and its
  method \<open>add_output\<close>, which the function calls before it reads the ledger and which
  may raise (on an address it cannot decode, for one), are the parameters collected in
  \<open>txcodec\<close>. \<open>add_outputs\<close> is the loop of lines 744--746: it adds each output to the
  transaction, in order, and sums the amounts.

  The methods \<open>join\<close> and \<open>filter\<close> of a query return a new query and leave the receiver
  as it is; the source drops the queries that lines 752 and 753 build, so \<open>qr\<close> stays
  the query of all rows of the table, for \<open>qr.all()\<close> and for the selection of inputs.
  The default fee \<open>int(0.0003 * pow(10, 8))\<close> is 29999 in double precision arithmetic.
  Lines 778--800 (adding inputs, the change output, signing and verifying, all through
  the external classes \<open>Transaction\<close> and \<open>HDKey\<close>) are the parameter \<open>assemble\<close>, which
  gets the transaction with its outputs. The function returns \<open>None\<close>, no transaction,
  when the query of line 754 has no row.
\<close>

record 'tx txcodec =
  new_transaction :: "string \<Rightarrow> error + 'tx"
  add_output :: "'tx \<Rightarrow> int \<Rightarrow> string \<Rightarrow> error + 'tx"

fun add_outputs ::
  "'tx txcodec \<Rightarrow> (string \<times> int) list \<Rightarrow> int \<Rightarrow> 'tx \<Rightarrow> error + int \<times> 'tx" where
  "add_outputs codec [] amount_total_output t = Inr (amount_total_output, t)"
| "add_outputs codec (out # output_arr) amount_total_output t =
     (case add_output codec t (snd out) (fst out) of
        Inl e \<Rightarrow> Inl e
      | Inr t1 \<Rightarrow> add_outputs codec output_arr (amount_total_output + snd out) t1)"

definition create_transaction ::
  "'tx txcodec \<Rightarrow>
   (HDWallet \<Rightarrow> db \<Rightarrow> 'tx \<Rightarrow> (string \<times> int \<times> int) list \<Rightarrow> int \<Rightarrow> int \<Rightarrow>
      (error + 'tx) \<times> HDWallet \<times> db) \<Rightarrow>
   HDWallet \<Rightarrow> db \<Rightarrow> (string \<times> int) list \<Rightarrow> (string \<times> int \<times> int) list option \<Rightarrow>
   int option \<Rightarrow> int option \<Rightarrow> int \<Rightarrow> (error + 'tx option) \<times> HDWallet \<times> db" where
  "create_transaction codec assemble self d output_arr input_arr account_id fee min_confirms =
     (case new_transaction codec (hw_network_name self) of
        Inl e \<Rightarrow> (Inl e, self, d)
      | Inr t0 \<Rightarrow>
          (case add_outputs codec output_arr 0 t0 of
             Inl e \<Rightarrow> (Inl e, self, d)
           | Inr (amount_total_output, t) \<Rightarrow>
               (let account_id1 = (case account_id of
                                     None \<Rightarrow> hw_default_account_id self
                                   | Some a \<Rightarrow> a);
                    qr = transactions d;
                    utxos = qr
                in if utxos = [] then (Inr None, self, d)
                   else
                     (let fee1 = (case fee of None \<Rightarrow> 29999 | Some f \<Rightarrow> f) in
                      case input_arr of
                        Some _ \<Rightarrow> (Inl UnsupportedOperation, self, d)
                      | None \<Rightarrow>
                          (let selected_utxos =
                                 select_inputs (amount_total_output + fee1) (Some qr)
                           in if selected_utxos = [] then (Inl InsufficientFunds, self, d)
                              else
                                (let amount_total_input =
                                       sum_list (map t_value selected_utxos);
                                     input_arr1 =
                                       map (\<lambda>utxo. (t_tx_hash utxo, t_output_n utxo,
                                                     t_key_id utxo)) selected_utxos;
                                     amount_change =
                                       amount_total_input - (amount_total_output + fee1)
                                 in case assemble self d t input_arr1 amount_change
                                           account_id1 of
                                      (Inl e, self1, d1) \<Rightarrow> (Inl e, self1, d1)
                                    | (Inr t1, self1, d1) \<Rightarrow>
                                        (Inr (Some t1), self1, d1)))))))"

section \<open>Example data\<close>

text \<open>Concrete rows on which the theorems below are instantiated.\<close>

definition example_utxo :: "int \<Rightarrow> string \<Rightarrow> DbTransaction" where
  "example_utxo v h =
     \<lparr>t_key_id = 1, t_tx_hash = h, t_confirmations = 6, t_output_n = 0, t_index = 0,
      t_value = v, t_script = [], t_spend = False\<rparr>"

definition example_wallet :: DbWallet where
  "example_wallet =
     \<lparr>w_id = 1, w_name = ''MyWallet'', w_owner = [], w_network_name = ''bitcoin'',
      w_purpose = 44, w_main_key_id = Some 1, w_balance = 5\<rparr>"

definition example_key :: DbKey where
  "example_key =
     \<lparr>k_id = 1, k_name = ''MyWallet'', k_wallet_id = 1, k_key = ''00'', k_purpose = 44,
      k_account_id = Some 0, k_depth = 0, k_change = 0, k_address_index = 0,
      k_key_wif = ''xprv'', k_address = ''1A'', k_parent_id = 0, k_is_private = True,
      k_path = ''m'', k_key_type = ''bip32'', k_balance = 5\<rparr>"

definition example_db :: db where
  "example_db =
     \<lparr>wallets = [example_wallet], keys = [example_key],
      transactions = [example_utxo 5 ''a'']\<rparr>"

text \<open>
  Modelled from the spec: the KeyDerivation capability (the class \<open>HDKey\<close> of
  \<open>bitcoinlib/keys.py\<close>, which is not among the sources) and the network table.
  A key is named by the chain of levels that derives it from its master key: deriving a
  child appends the level (with the canonical hardening marker), the depth is the
  number of levels after the root, and the serialised key, the raw key and the address
  are the chain behind a prefix, so that different chains give different keys. A level
  that is no index is rejected, except for a root marker \<open>m\<close> or \<open>M\<close>, on which the
  flag \<open>root_is_self\<close> chooses between returning the key itself and an error.
\<close>

definition example_hdkey :: "string \<Rightarrow> HDKey" where
  "example_hdkey chain =
     \<lparr>hd_extended_wif = ''xprv:'' @ chain, hd_key_hex = ''hex:'' @ chain,
      hd_depth = int (length (py_split slash chain)) - 1,
      hd_child_index = digits_value (filter is_digit (last (py_split slash chain))),
      hd_address = ''addr:'' @ chain, hd_key_type = ''bip32''\<rparr>"

definition example_subkey :: "bool \<Rightarrow> HDKey \<Rightarrow> string \<Rightarrow> error + HDKey" where
  "example_subkey root_is_self k level =
     (if level = ''m'' \<or> level = ''M''
      then (if root_is_self then Inr k else Inl KeyDerivationError)
      else if level = [] then Inl KeyDerivationError
      else (let hardened = (last level \<in> set (hm @ ''HhPp''));
                index = (if hardened then butlast level else level)
            in if isdigit index
               then Inr (example_hdkey (drop 5 (hd_extended_wif k) @ ''/'' @ index
                                        @ (if hardened then hm else [])))
               else Inl KeyDerivationError))"

definition example_import :: "string \<Rightarrow> string \<Rightarrow> error + HDKey" where
  "example_import key network =
     (if take 5 key = ''xprv:'' then Inr (example_hdkey (drop 5 key))
      else Inl KeyDerivationError)"

definition example_lib :: "bool \<Rightarrow> keylib" where
  "example_lib root_is_self =
     \<lparr>subkey_for_path = example_subkey root_is_self,
      HDKey_import = example_import,
      bip44_cointype = (\<lambda>n. if n = Some ''testnet'' then 1 else 0),
      check_network_and_key = (\<lambda>key network. Inr (case network of None \<Rightarrow> ''bitcoin'' | Some n \<Rightarrow> n)),
      DEFAULT_NETWORK = ''bitcoin''\<rparr>"

definition empty_db :: db where
  "empty_db = \<lparr>wallets = [], keys = [], transactions = []\<rparr>"

definition example_wallet_key :: HDWalletKey where
  "example_wallet_key =
     \<lparr>hk_key_id = 1, hk_dbkey = example_key, hk_network_name = ''bitcoin'',
      hk_hdkey_object = None\<rparr>"

definition example_hdwallet :: HDWallet where
  "example_hdwallet =
     \<lparr>hw_wallet_id = 1, hw_name = ''MyWallet'', hw_purpose = 44,
      hw_network_name = ''bitcoin'', hw_balance = 5, hw_main_key_id = 1,
      hw_main_key = example_wallet_key, hw_default_account_id = 0,
      hw_key_objects = [(1, example_wallet_key)]\<rparr>"

definition example_report :: "int \<Rightarrow> int \<Rightarrow> utxo_dict" where
  "example_report n v =
     \<lparr>u_address = ''1A'', u_tx_hash = ''t1'', u_confirmations = 10, u_output_n = n,
      u_index = 0, u_value = v, u_script = []\<rparr>"

text \<open>
  A wallet made by \<open>HDWallet.create\<close> in an empty store from a master key, and the store
  after a second wallet was asked for with the same master key: that second call raises,
  after it has committed the row of the second wallet.
\<close>

definition example_create :: "bool \<Rightarrow> (error + HDWallet) \<times> db" where
  "example_create root_is_self =
     create (example_lib root_is_self) empty_db ''MyWallet'' ''xprv:m'' [] (Some ''bitcoin'') 0 44"

definition example_second_db :: db where
  "example_second_db =
     snd (create (example_lib True) (snd (example_create True)) ''Second'' ''xprv:m'' []
            (Some ''bitcoin'') 0 44)"

definition example_second_wallet :: HDWallet where
  "example_second_wallet =
     (case HDWallet_init example_second_db (WalletName ''Second'') None of
        Inr w \<Rightarrow> w
      | Inl _ \<Rightarrow> example_hdwallet)"

text \<open>
  A transaction codec for the examples: a transaction is the list of its outputs and the
  inputs chosen for it, with the change. As the class \<open>Transaction\<close> does, \<open>add_output\<close>
  raises on an address it cannot decode; the addresses it decodes here are the two
  well-formed mainnet addresses of \<open>example_addresses\<close>.
\<close>

record example_tx =
  tx_outputs :: "(int \<times> string) list"
  tx_inputs :: "(string \<times> int \<times> int) list"
  tx_change :: int

definition example_addresses :: "string list" where
  "example_addresses =
     [''1A1zP1eP5QGefi2DMPTfTL5SLmv7DivfNa'', ''12c6DSiU4Rq3P4ZxziKxzrL5LmMBrzjrJX'']"

definition example_codec :: "example_tx txcodec" where
  "example_codec =
     \<lparr>new_transaction = (\<lambda>network. Inr \<lparr>tx_outputs = [], tx_inputs = [], tx_change = 0\<rparr>),
      add_output = (\<lambda>t amount address.
         if address \<in> set example_addresses
         then Inr (t\<lparr>tx_outputs := tx_outputs t @ [(amount, address)]\<rparr>)
         else Inl TransactionError)\<rparr>"

definition example_assemble ::
  "HDWallet \<Rightarrow> db \<Rightarrow> example_tx \<Rightarrow> (string \<times> int \<times> int) list \<Rightarrow> int \<Rightarrow> int \<Rightarrow>
   (error + example_tx) \<times> HDWallet \<times> db" where
  "example_assemble self d t input_arr amount_change account_id =
     (Inr (t\<lparr>tx_inputs := input_arr, tx_change := amount_change\<rparr>), self, d)"

section \<open>Verified properties\<close>

subsection \<open>Path normalisation\<close>

lemma py_split_no_sep: "w \<in> set (py_split c s) \<Longrightarrow> c \<notin> set w"
  by (induction s arbitrary: w) (auto split: list.splits if_splits)

lemma py_split_append_sep:
  "c \<notin> set w \<Longrightarrow> py_split c (w @ c # s) = w # py_split c s"
  by (induction w) (auto split: list.splits)

lemma py_split_single: "c \<notin> set w \<Longrightarrow> py_split c w = [w]"
  by (induction w) (auto split: list.splits)

lemma py_split_join:
  "ws \<noteq> [] \<Longrightarrow> \<forall>w \<in> set ws. c \<notin> set w \<Longrightarrow> py_split c (py_join [c] ws) = ws"
  by (induction "[c]" ws rule: py_join.induct) (auto simp: py_split_single py_split_append_sep)

lemma normalize_loop_ok:
  "\<forall>l \<in> set levels. l \<noteq> [] \<Longrightarrow>
   normalize_loop levels acc =
     Inr (acc @ concat (map (\<lambda>l. normalize_level l @ [slash]) levels))"
  by (induction levels arbitrary: acc) auto

lemma normalize_loop_err:
  "[] \<in> set levels \<Longrightarrow> normalize_loop levels acc = Inl InvalidPath"
  by (induction levels arbitrary: acc) auto

lemma concat_slash_join:
  "ls \<noteq> [] \<Longrightarrow> concat (map (\<lambda>l. f l @ [slash]) ls) = py_join [slash] (map f ls) @ [slash]"
  by (induction ls rule: induct_list012) auto

lemma normalize_path_ok:
  assumes "\<forall>l \<in> set (py_split slash p). l \<noteq> []"
  shows "normalize_path p = Inr (py_join [slash] (map normalize_level (py_split slash p)))"
  using assms py_split_nonempty[of slash p]
  by (simp add: normalize_path_def normalize_loop_ok concat_slash_join)

lemma normalize_level_idem: "l \<noteq> [] \<Longrightarrow> normalize_level (normalize_level l) = normalize_level l"
  by (auto simp: normalize_level_def)

lemma normalize_level_not_Nil: "l \<noteq> [] \<Longrightarrow> normalize_level l \<noteq> []"
  by (auto simp: normalize_level_def)

lemma normalize_level_no_slash: "l \<noteq> [] \<Longrightarrow> slash \<notin> set l \<Longrightarrow> slash \<notin> set (normalize_level l)"
  by (auto simp: normalize_level_def dest: in_set_butlastD)

text \<open>
  Claim C9. \<open>normalize_path\<close> is idempotent: on a path all of whose slash-separated
  segments are non-empty it returns a string, and normalising that string returns it
  unchanged.
\<close>

theorem normalize_idempotent:
  assumes "\<forall>l \<in> set (py_split slash p). l \<noteq> []"
  shows "\<exists>n. normalize_path p = Inr n \<and> normalize_path n = Inr n"
proof -
  let ?ls = "map normalize_level (py_split slash p)"
  let ?n = "py_join [slash] ?ls"
  have n: "normalize_path p = Inr ?n" using assms by (rule normalize_path_ok)
  have ne: "?ls \<noteq> []" by (simp add: py_split_nonempty)
  have ns: "\<forall>w \<in> set ?ls. slash \<notin> set w"
  proof
    fix w assume "w \<in> set ?ls"
    then obtain l where l: "l \<in> set (py_split slash p)" and w: "w = normalize_level l" by auto
    from l assms have "l \<noteq> []" by blast
    moreover from l have "slash \<notin> set l" by (rule py_split_no_sep)
    ultimately show "slash \<notin> set w" unfolding w by (rule normalize_level_no_slash)
  qed
  have sp: "py_split slash ?n = ?ls" using ne ns by (rule py_split_join)
  have "\<forall>l \<in> set (py_split slash ?n). l \<noteq> []"
    unfolding sp using assms by (auto simp: normalize_level_not_Nil)
  then have "normalize_path ?n = Inr (py_join [slash] (map normalize_level (py_split slash ?n)))"
    by (rule normalize_path_ok)
  also have "map normalize_level (py_split slash ?n) = ?ls"
    unfolding sp using assms by (simp add: normalize_level_idem)
  finally show ?thesis using n by simp
qed

lemma normalize_path_err:
  "[] \<in> set (py_split slash p) \<Longrightarrow> normalize_path p = Inl InvalidPath"
  by (simp add: normalize_path_def normalize_loop_err)

theorem normalize_idempotent_witness:
  "normalize_path ''m/44h/1'/0p/2000/1'' = Inr (''m/44'/1'/0'/2000/1'') \<and>
   normalize_path (''m/44'/1'/0'/2000/1'') = Inr (''m/44'/1'/0'/2000/1'')"
  using normalize_idempotent[of "''m/44h/1'/0p/2000/1''"]
  by (simp add: normalize_path_def normalize_level_def)

subsection \<open>Coin selection\<close>

lemma select_loop_done:
  "amount \<le> tot \<Longrightarrow> select_loop amount ls tot sel = (tot, sel)"
  by (induction ls) auto

lemma select_loop_prefix:
  "\<exists>k \<le> length ls.
     select_loop amount ls tot sel =
       (tot + sum_list (map t_value (take k ls)), sel @ take k ls) \<and>
     (\<forall>j < k. tot + sum_list (map t_value (take j ls)) < amount) \<and>
     (k < length ls \<longrightarrow> amount \<le> tot + sum_list (map t_value (take k ls)))"
proof (induction ls arbitrary: tot sel)
  case Nil
  then show ?case by simp
next
  case (Cons u us)
  show ?case
  proof (cases "tot < amount")
    case True
    from Cons[of "tot + t_value u" "sel @ [u]"] obtain k where k: "k \<le> length us"
      "select_loop amount us (tot + t_value u) (sel @ [u]) =
         (tot + t_value u + sum_list (map t_value (take k us)), (sel @ [u]) @ take k us)"
      "\<forall>j < k. tot + t_value u + sum_list (map t_value (take j us)) < amount"
      "k < length us \<longrightarrow> amount \<le> tot + t_value u + sum_list (map t_value (take k us))"
      by blast
    have "\<forall>j < Suc k. tot + sum_list (map t_value (take j (u # us))) < amount"
    proof (intro allI impI)
      fix j assume "j < Suc k"
      then show "tot + sum_list (map t_value (take j (u # us))) < amount"
        using True k(3) by (cases j) (auto simp: add.assoc)
    qed
    with k True show ?thesis
      by (intro exI[of _ "Suc k"]) (simp add: add.assoc)
  next
    case False
    then show ?thesis
      by (intro exI[of _ 0]) (simp add: select_loop_done)
  qed
qed



lemma sorted_neg_rev:
  "sorted (map (\<lambda>t. - f t) xs) \<Longrightarrow> sorted (rev (map (f :: 'a \<Rightarrow> int) xs))"
  by (induction xs) (auto simp: sorted_append)

lemma sum_take_le:
  "\<forall>x \<in> set xs. (0::int) \<le> f x \<Longrightarrow> sum_list (map f (take k xs)) \<le> sum_list (map f xs)"
proof -
  assume nn: "\<forall>x \<in> set xs. (0::int) \<le> f x"
  have "sum_list (map f xs) = sum_list (map f (take k xs)) + sum_list (map f (drop k xs))"
    by (metis append_take_drop_id map_append sum_list_append)
  moreover have "0 \<le> sum_list (map f (drop k xs))"
    using nn by (intro sum_list_nonneg) (auto dest: in_set_dropD)
  ultimately show ?thesis by simp
qed

text \<open>
  Claim C1. Coin selection is deterministic and exact. If some unspent record of the
  query has a value of at least the amount, the result is one record, unspent, of the
  query, whose value is the least such value. Otherwise the candidates are the unspent
  records of smaller value in descending order of value, and the result is the shortest
  prefix of them whose total reaches the amount; when no prefix reaches it, all
  candidates were tried and the result is empty, never a partial selection. For
  non-negative values this is the case exactly when the total of all candidates is below
  the amount.
\<close>

theorem select_inputs_correct:
  "(if \<exists>u \<in> set q. \<not> t_spend u \<and> amount \<le> t_value u
    then \<exists>u. select_inputs amount (Some q) = [u] \<and> u \<in> set q \<and> \<not> t_spend u \<and>
             amount \<le> t_value u \<and>
             (\<forall>v \<in> set q. \<not> t_spend v \<and> amount \<le> t_value v \<longrightarrow> t_value u \<le> t_value v)
    else \<exists>ls k. mset ls = mset (filter (\<lambda>t. \<not> t_spend t \<and> t_value t < amount) q) \<and>
              sorted (rev (map t_value ls)) \<and> k \<le> length ls \<and>
              (\<forall>j < k. sum_list (map t_value (take j ls)) < amount) \<and>
              (if sum_list (map t_value (take k ls)) < amount
               then k = length ls \<and> select_inputs amount (Some q) = []
               else select_inputs amount (Some q) = take k ls) \<and>
              ((\<forall>u \<in> set q. 0 \<le> t_value u) \<and> sum_list (map t_value ls) < amount
                 \<longrightarrow> select_inputs amount (Some q) = []))"
proof (cases "\<exists>u \<in> set q. \<not> t_spend u \<and> amount \<le> t_value u")
  case True
  let ?fs = "filter (\<lambda>t. \<not> t_spend t \<and> amount \<le> t_value t) q"
  from True have "?fs \<noteq> []" by (auto simp: filter_empty_conv)
  then have "sort_key t_value ?fs \<noteq> []" by (metis length_sort list.size(3) length_0_conv)
  then obtain u rest where ur: "sort_key t_value ?fs = u # rest" by (cases "sort_key t_value ?fs") auto
  have "u \<in> set (sort_key t_value ?fs)" unfolding ur by simp
  then have u: "u \<in> set q" "\<not> t_spend u" "amount \<le> t_value u" by auto
  have "sorted (map t_value (sort_key t_value ?fs))" by (rule sorted_sort_key)
  then have "\<forall>v \<in> set (sort_key t_value ?fs). t_value u \<le> t_value v"
    unfolding ur by auto
  then have m: "\<forall>v \<in> set q. \<not> t_spend v \<and> amount \<le> t_value v \<longrightarrow> t_value u \<le> t_value v"
    by auto
  have "select_inputs amount (Some q) = [u]"
    by (simp add: select_inputs_def order_by_value_def ur)
  with u m True show ?thesis by auto
next
  case False
  let ?ls = "order_by_value_desc (filter (\<lambda>t. \<not> t_spend t \<and> t_value t < amount) q)"
  have e: "filter (\<lambda>t. \<not> t_spend t \<and> amount \<le> t_value t) q = []"
    using False by (auto simp: filter_empty_conv)
  have ms: "mset ?ls = mset (filter (\<lambda>t. \<not> t_spend t \<and> t_value t < amount) q)"
    by (simp add: order_by_value_desc_def)
  have "sorted (map (\<lambda>t. - t_value t) ?ls)"
    unfolding order_by_value_desc_def by (rule sorted_sort_key)
  then have so: "sorted (rev (map t_value ?ls))" by (rule sorted_neg_rev)
  obtain k where k: "k \<le> length ?ls"
    "select_loop amount ?ls 0 [] = (0 + sum_list (map t_value (take k ?ls)), [] @ take k ?ls)"
    "\<forall>j < k. 0 + sum_list (map t_value (take j ?ls)) < amount"
    "k < length ?ls \<longrightarrow> amount \<le> 0 + sum_list (map t_value (take k ?ls))"
    using select_loop_prefix[of "?ls" amount 0 "[]"] by blast
  have sel: "select_inputs amount (Some q) =
    (if sum_list (map t_value (take k ?ls)) < amount then [] else take k ?ls)"
    using k(2) by (simp add: select_inputs_def order_by_value_def e)
  have pre: "\<forall>j < k. sum_list (map t_value (take j ?ls)) < amount" using k(3) by simp
  have fin: "if sum_list (map t_value (take k ?ls)) < amount
     then k = length ?ls \<and> select_inputs amount (Some q) = []
     else select_inputs amount (Some q) = take k ?ls"
    using sel k(1,4) by (cases "k < length ?ls") auto
  have nn: "(\<forall>u \<in> set q. 0 \<le> t_value u) \<and> sum_list (map t_value ?ls) < amount
     \<longrightarrow> select_inputs amount (Some q) = []"
  proof
    assume a: "(\<forall>u \<in> set q. 0 \<le> t_value u) \<and> sum_list (map t_value ?ls) < amount"
    have "set ?ls \<subseteq> set q" by (auto simp: order_by_value_desc_def)
    with a have "\<forall>x \<in> set ?ls. 0 \<le> t_value x" by blast
    then have "sum_list (map t_value (take k ?ls)) \<le> sum_list (map t_value ?ls)"
      by (rule sum_take_le)
    with a sel show "select_inputs amount (Some q) = []" by simp
  qed
  from k(1) ms so pre fin nn have
    "\<exists>ls k. mset ls = mset (filter (\<lambda>t. \<not> t_spend t \<and> t_value t < amount) q) \<and>
              sorted (rev (map t_value ls)) \<and> k \<le> length ls \<and>
              (\<forall>j < k. sum_list (map t_value (take j ls)) < amount) \<and>
              (if sum_list (map t_value (take k ls)) < amount
               then k = length ls \<and> select_inputs amount (Some q) = []
               else select_inputs amount (Some q) = take k ls) \<and>
              ((\<forall>u \<in> set q. 0 \<le> t_value u) \<and> sum_list (map t_value ls) < amount
                 \<longrightarrow> select_inputs amount (Some q) = [])"
    by blast
  with False show ?thesis by (simp only: if_False)
qed

theorem select_inputs_correct_witness:
  "select_inputs 10 (Some [example_utxo 3 ''a'', example_utxo 5 ''b'', example_utxo 12 ''c'']) = [example_utxo 12 ''c''] \<and>
   select_inputs 10 (Some [example_utxo 3 ''a'', example_utxo 5 ''b'', example_utxo 4 ''c'']) = [example_utxo 5 ''b'', example_utxo 4 ''c'', example_utxo 3 ''a''] \<and>
   select_inputs 10 (Some [example_utxo 3 ''a'', example_utxo 5 ''b'']) = []"
  using select_inputs_correct[of "[example_utxo 3 ''a'', example_utxo 5 ''b'', example_utxo 12 ''c'']" 10]
    select_inputs_correct[of "[example_utxo 3 ''a'', example_utxo 5 ''b'', example_utxo 4 ''c'']" 10]
    select_inputs_correct[of "[example_utxo 3 ''a'', example_utxo 5 ''b'']" 10]
  by (simp add: select_inputs_def order_by_value_def order_by_value_desc_def example_utxo_def)

subsection \<open>Deleting a wallet\<close>

lemma check_balances_force: "check_balances True ks = Inr ()"
  by (induction ks) auto

lemma check_balances_blocked:
  "\<exists>k \<in> set ks. k_balance k \<noteq> 0 \<Longrightarrow> check_balances False ks = Inl ForceDeleteRequired"
  by (induction ks) auto

text \<open>
Claim C7, as amended. For a wallet that the reference finds: when one of its keys has a
  nonzero cached balance and \<open>force\<close> is not given, \<open>delete_wallet\<close> fails with
  \<open>ForceDeleteRequired\<close> and leaves the store unchanged; when \<open>force\<close> is given it
  succeeds and removes the wallet row and every key row of the wallet, and the table of
  transactions is left as it was.
\<close>

theorem delete_wallet_cascade:
  assumes "first (wallet_query d wallet) = Some w0"
  shows "((\<exists>k \<in> set (keys d). k_wallet_id k = w_id w0 \<and> k_balance k \<noteq> 0) \<longrightarrow>
           delete_wallet d wallet False = (Inl ForceDeleteRequired, d)) \<and>
         (\<exists>d'. delete_wallet d wallet True = (Inr (length (wallet_query d wallet)), d') \<and>
           w0 \<notin> set (wallets d') \<and>
           (\<forall>k \<in> set (keys d'). k_wallet_id k \<noteq> w_id w0) \<and>
           keys d' = filter (\<lambda>k. k_wallet_id k \<noteq> w_id w0) (keys d) \<and>
           transactions d' = transactions d)"
proof
  show "(\<exists>k \<in> set (keys d). k_wallet_id k = w_id w0 \<and> k_balance k \<noteq> 0) \<longrightarrow>
           delete_wallet d wallet False = (Inl ForceDeleteRequired, d)"
  proof
    assume "\<exists>k \<in> set (keys d). k_wallet_id k = w_id w0 \<and> k_balance k \<noteq> 0"
    then have "\<exists>k \<in> set (filter (\<lambda>k. k_wallet_id k = w_id w0) (keys d)). k_balance k \<noteq> 0"
      by auto
    then have "check_balances False (filter (\<lambda>k. k_wallet_id k = w_id w0) (keys d))
                 = Inl ForceDeleteRequired"
      by (rule check_balances_blocked)
    with assms show "delete_wallet d wallet False = (Inl ForceDeleteRequired, d)"
      by (simp add: delete_wallet_def)
  qed
next
  from assms have "w0 \<in> set (wallet_query d wallet)"
    by (auto simp: first_def split: list.splits)
  with assms show "\<exists>d'. delete_wallet d wallet True = (Inr (length (wallet_query d wallet)), d') \<and>
           w0 \<notin> set (wallets d') \<and>
           (\<forall>k \<in> set (keys d'). k_wallet_id k \<noteq> w_id w0) \<and>
           keys d' = filter (\<lambda>k. k_wallet_id k \<noteq> w_id w0) (keys d) \<and>
           transactions d' = transactions d"
    by (simp add: delete_wallet_def check_balances_force Let_def)
qed

theorem delete_wallet_cascade_witness:
  "first (wallet_query example_db (WalletId 1)) = Some example_wallet \<and>
   delete_wallet example_db (WalletId 1) False = (Inl ForceDeleteRequired, example_db) \<and>
   delete_wallet example_db (WalletId 1) True =
     (Inr 1, \<lparr>wallets = [], keys = [], transactions = [example_utxo 5 ''a'']\<rparr>)"
  using delete_wallet_cascade[of example_db "WalletId 1" example_wallet]
  by (simp add: example_db_def example_wallet_def example_key_def wallet_query_def first_def
      delete_wallet_def)

theorem delete_wallet_keeps_ledger_rows:
  "k_wallet_id example_key = w_id example_wallet \<and>
   t_key_id (example_utxo 5 ''a'') = k_id example_key \<and>
   example_utxo 5 ''a'' \<in> set (transactions example_db) \<and>
   fst (delete_wallet example_db (WalletId 1) True) = Inr 1 \<and>
   example_utxo 5 ''a'' \<in> set (transactions (snd (delete_wallet example_db (WalletId 1) True)))"
  by (simp add: example_db_def example_wallet_def example_key_def wallet_query_def first_def
      delete_wallet_def example_utxo_def)

subsection \<open>Transaction assembly\<close>

text \<open>
  Claim C5, as amended. When the table of transactions holds no row, so that no unspent
  output is in scope for any account and any number of confirmations,
  \<open>create_transaction\<close> does one of two things, and leaves the wallet and the store
  unchanged in both: if making the transaction or adding one of the requested outputs
  to it raises, that error is the result; otherwise it returns \<open>None\<close>, no transaction
  and no error.
\<close>

theorem create_transaction_empty_ledger:
  "transactions d = [] \<Longrightarrow>
   create_transaction codec assemble self d output_arr input_arr account_id fee min_confirms
     = (case new_transaction codec (hw_network_name self) of
          Inl e \<Rightarrow> (Inl e, self, d)
        | Inr t0 \<Rightarrow>
            (case add_outputs codec output_arr 0 t0 of
               Inl e \<Rightarrow> (Inl e, self, d)
             | Inr _ \<Rightarrow> (Inr None, self, d)))"
  by (simp add: create_transaction_def split: sum.splits prod.splits)

theorem create_transaction_empty_ledger_witness:
  "transactions (example_db\<lparr>transactions := []\<rparr>) = [] \<and>
   create_transaction example_codec example_assemble example_hdwallet
       (example_db\<lparr>transactions := []\<rparr>)
       [(''1A1zP1eP5QGefi2DMPTfTL5SLmv7DivfNa'', 100000)] None (Some 0) (Some 30000) 4
     = (Inr None, example_hdwallet, example_db\<lparr>transactions := []\<rparr>) \<and>
   create_transaction example_codec example_assemble example_hdwallet
       (example_db\<lparr>transactions := []\<rparr>)
       [(''not an address'', 100000)] None (Some 0) (Some 30000) 4
     = (Inl TransactionError, example_hdwallet, example_db\<lparr>transactions := []\<rparr>)"
proof -
  have e: "transactions (example_db\<lparr>transactions := []\<rparr>) = []" by simp
  show ?thesis
    using create_transaction_empty_ledger[OF e, of example_codec example_assemble
        example_hdwallet "[(''1A1zP1eP5QGefi2DMPTfTL5SLmv7DivfNa'', 100000)]" None "Some 0"
        "Some 30000" 4]
      create_transaction_empty_ledger[OF e, of example_codec example_assemble
        example_hdwallet "[(''not an address'', 100000)]" None "Some 0" "Some 30000" 4]
    by (simp add: example_codec_def example_addresses_def)
qed

theorem create_transaction_returns_None:
  "fst (create_transaction example_codec example_assemble example_hdwallet
          (example_db\<lparr>transactions := []\<rparr>)
          [(''1A1zP1eP5QGefi2DMPTfTL5SLmv7DivfNa'', 100000)] None (Some 0) (Some 30000) 4)
     = Inr None"
  by (simp add: create_transaction_def example_db_def example_codec_def
      example_addresses_def)

lemma create_transaction_ignores_scope:
  "fst (create_transaction example_codec example_assemble example_hdwallet
          (example_db\<lparr>transactions :=
             [(example_utxo 150000 ''a'')\<lparr>t_confirmations := 0, t_key_id := 99\<rparr>]\<rparr>)
          [(''1A1zP1eP5QGefi2DMPTfTL5SLmv7DivfNa'', 100000)] None (Some 0) (Some 30000) 4)
     = Inr (Some \<lparr>tx_outputs = [(100000, ''1A1zP1eP5QGefi2DMPTfTL5SLmv7DivfNa'')],
                   tx_inputs = [(''a'', 0, 99)], tx_change = 20000\<rparr>)"
  by (simp add: create_transaction_def example_db_def example_utxo_def select_inputs_def
      order_by_value_def example_codec_def example_addresses_def example_assemble_def)

subsection \<open>Ledger synchronisation\<close>

lemma add_key_balance_map_of:
  "map_of (add_key_balance kb i v) =
     (map_of kb)(i \<mapsto> (case map_of kb i of None \<Rightarrow> 0 | Some b \<Rightarrow> b) + v)"
  by (induction kb i v rule: add_key_balance.induct) (auto simp: fun_eq_iff)

lemma add_key_balance_fst:
  "map fst (add_key_balance kb i v) = (if i \<in> set (map fst kb) then map fst kb else map fst kb @ [i])"
  by (induction kb i v rule: add_key_balance.induct) auto

lemma add_key_balance_distinct:
  "distinct (map fst kb) \<Longrightarrow> distinct (map fst (add_key_balance kb i v))"
  by (simp add: add_key_balance_fst)

lemma scalar_Some: "scalar rows = Inr (Some r) \<longleftrightarrow> rows = [r]"
  by (auto simp: scalar_def split: list.splits)

lemma utxo_loop_rows:
  "utxo_loop ks us kb txs n = Inr (kb1, txs1, n1) \<Longrightarrow>
   \<exists>new. txs1 = txs @ new \<and> distinct (map t_tx_hash new) \<and>
         (\<forall>t \<in> set new. t_tx_hash t \<notin> t_tx_hash ` set txs)"
proof (induction us arbitrary: kb txs n)
  case Nil
  then show ?case by simp
next
  case (Cons u us)
  from Cons.prems obtain key where key: "filter (\<lambda>k. k_address k = u_address u) ks = [key]"
    by (auto simp: scalar_Some split: sum.splits option.splits)
  show ?case
  proof (cases "filter (\<lambda>t. t_tx_hash t = u_tx_hash u) txs = []")
    case False
    with Cons.prems key have
      "utxo_loop ks us (add_key_balance kb (k_id key) (u_value u)) txs n = Inr (kb1, txs1, n1)"
      by (simp add: scalar_def)
    then show ?thesis by (rule Cons.IH)
  next
    case True
    let ?new = "\<lparr>t_key_id = k_id key, t_tx_hash = u_tx_hash u,
                  t_confirmations = u_confirmations u, t_output_n = u_output_n u,
                  t_index = u_index u, t_value = u_value u, t_script = u_script u,
                  t_spend = False\<rparr>"
    from True Cons.prems key have
      "utxo_loop ks us (add_key_balance kb (k_id key) (u_value u)) (txs @ [?new]) (n + 1)
         = Inr (kb1, txs1, n1)"
      by (simp add: scalar_def Let_def)
    from Cons.IH[OF this] obtain new where new: "txs1 = (txs @ [?new]) @ new"
      "distinct (map t_tx_hash new)"
      "\<forall>t \<in> set new. t_tx_hash t \<notin> t_tx_hash ` set (txs @ [?new])" by blast
    from True have nin: "u_tx_hash u \<notin> t_tx_hash ` set txs"
      by (auto simp: filter_empty_conv)
    have "txs1 = txs @ (?new # new)" using new(1) by simp
    moreover have "distinct (map t_tx_hash (?new # new))" using new(2,3) by auto
    moreover have "\<forall>t \<in> set (?new # new). t_tx_hash t \<notin> t_tx_hash ` set txs"
      using new(3) nin by auto
    ultimately show ?thesis by blast
  qed
qed


lemma utxo_loop_balances:
  "utxo_loop ks us kb txs n = Inr (kb1, txs1, n1) \<Longrightarrow> distinct (map fst kb) \<Longrightarrow>
   distinct (map fst kb1) \<and>
   (\<forall>u \<in> set us. \<exists>k. filter (\<lambda>k. k_address k = u_address u) ks = [k]) \<and>
   (\<forall>i. (case map_of kb1 i of None \<Rightarrow> 0 | Some b \<Rightarrow> b) =
        (case map_of kb i of None \<Rightarrow> 0 | Some b \<Rightarrow> b) +
        sum_list (map u_value
          (filter (\<lambda>u. map k_id (filter (\<lambda>k. k_address k = u_address u) ks) = [i]) us))) \<and>
   (\<forall>i. i \<in> fst ` set kb1 \<longleftrightarrow>
        i \<in> fst ` set kb \<or>
        (\<exists>u \<in> set us. map k_id (filter (\<lambda>k. k_address k = u_address u) ks) = [i]))"
proof (induction us arbitrary: kb txs n)
  case Nil
  then show ?case by simp
next
  case (Cons u us)
  from Cons.prems(1) obtain key where key: "filter (\<lambda>k. k_address k = u_address u) ks = [key]"
    by (auto simp: scalar_Some split: sum.splits option.splits)
  let ?kb = "add_key_balance kb (k_id key) (u_value u)"
  from Cons.prems(1) key obtain txs' n' where
    step: "utxo_loop ks us ?kb txs' n' = Inr (kb1, txs1, n1)"
    by (auto simp: scalar_def Let_def split: if_splits)
  have d: "distinct (map fst ?kb)" using Cons.prems(2) by (rule add_key_balance_distinct)
  note IH = Cons.IH[OF step d]
  note I1 = IH[THEN conjunct1]
  note I2 = IH[THEN conjunct2, THEN conjunct1]
  note I3 = IH[THEN conjunct2, THEN conjunct2, THEN conjunct1, rule_format]
  note I4 = IH[THEN conjunct2, THEN conjunct2, THEN conjunct2, rule_format]
  have fst_kb: "fst ` set ?kb = insert (k_id key) (fst ` set kb)"
  proof -
    have "set (map fst ?kb) = insert (k_id key) (set (map fst kb))"
      by (simp add: add_key_balance_fst insert_absorb)
    then show ?thesis by simp
  qed
  have bal: "\<And>i. (case map_of ?kb i of None \<Rightarrow> 0 | Some b \<Rightarrow> b) =
      (case map_of kb i of None \<Rightarrow> 0 | Some b \<Rightarrow> b) + (if i = k_id key then u_value u else 0)"
    by (simp add: add_key_balance_map_of)
  have res: "\<And>i. map k_id (filter (\<lambda>k. k_address k = u_address u) ks) = [i] \<longleftrightarrow> i = k_id key"
    unfolding key by auto
  show ?case
  proof (intro conjI allI)
    show "distinct (map fst kb1)" by (rule I1)
    show "\<forall>u \<in> set (u # us). \<exists>k. filter (\<lambda>k. k_address k = u_address u) ks = [k]"
      using I2 key by simp
    fix i
    show "(case map_of kb1 i of None \<Rightarrow> 0 | Some b \<Rightarrow> b) =
        (case map_of kb i of None \<Rightarrow> 0 | Some b \<Rightarrow> b) +
        sum_list (map u_value
          (filter (\<lambda>u. map k_id (filter (\<lambda>k. k_address k = u_address u) ks) = [i]) (u # us)))"
      unfolding I3[of i] bal[of i] by (simp add: res)
    show "i \<in> fst ` set kb1 \<longleftrightarrow>
        i \<in> fst ` set kb \<or>
        (\<exists>u \<in> set (u # us). map k_id (filter (\<lambda>k. k_address k = u_address u) ks) = [i])"
      unfolding I4[of i] fst_kb by (auto simp: res)
  qed
qed

lemma set_balance_id: "k_id (if k_id k = i then k\<lparr>k_balance := v\<rparr> else k) = k_id k"
  by simp

lemma set_balance_filter:
  "filter (\<lambda>k. k_id k = j) (map (\<lambda>k. if k_id k = i then k\<lparr>k_balance := v\<rparr> else k) ks)
     = map (\<lambda>k. if k_id k = i then k\<lparr>k_balance := v\<rparr> else k) (filter (\<lambda>k. k_id k = j) ks)"
  unfolding filter_map o_def set_balance_id ..

lemma set_balance_len:
  "length (filter (\<lambda>k. k_id k = j) (map (\<lambda>k. if k_id k = i then k\<lparr>k_balance := v\<rparr> else k) ks))
     = length (filter (\<lambda>k. k_id k = j) ks)"
  unfolding set_balance_filter by (rule length_map)

lemma set_balance_compose:
  "map_of kb i = None \<Longrightarrow>
   map (\<lambda>k. case map_of kb (k_id k) of None \<Rightarrow> k | Some v \<Rightarrow> k\<lparr>k_balance := v\<rparr>)
     (map (\<lambda>k. if k_id k = i then k\<lparr>k_balance := v\<rparr> else k) ks)
   = map (\<lambda>k. case map_of ((i, v) # kb) (k_id k) of None \<Rightarrow> k
                       | Some v \<Rightarrow> k\<lparr>k_balance := v\<rparr>) ks"
  by (induction ks) simp_all

lemma balance_loop_rows:
  "balance_loop kb ks tot = Inr (ks1, tot1) \<Longrightarrow> distinct (map fst kb) \<Longrightarrow>
   ks1 = map (\<lambda>k. case map_of kb (k_id k) of None \<Rightarrow> k | Some v \<Rightarrow> k\<lparr>k_balance := v\<rparr>) ks \<and>
   (\<forall>i \<in> fst ` set kb. \<exists>k. filter (\<lambda>k. k_id k = i) ks = [k])"
proof (induction kb arbitrary: ks tot)
  case Nil
  then show ?case by simp
next
  case (Cons p kb)
  obtain i v where p: "p = (i, v)" by (cases p)
  from Cons.prems(1) obtain getkey where g: "filter (\<lambda>k. k_id k = i) ks = [getkey]"
    unfolding p by (auto simp: scalar_Some split: sum.splits option.splits)
  let ?ks = "map (\<lambda>k. if k_id k = i then k\<lparr>k_balance := v\<rparr> else k) ks"
  from Cons.prems(1) g have step: "balance_loop kb ?ks (tot + v) = Inr (ks1, tot1)"
    unfolding p by (simp add: scalar_def)
  from Cons.prems(2) have d: "distinct (map fst kb)" and ni: "i \<notin> fst ` set kb"
    unfolding p by auto
  note IH = Cons.IH[OF step d]
  note len = set_balance_len[of _ i v ks]
  have "ks1 = map (\<lambda>k. case map_of (p # kb) (k_id k) of None \<Rightarrow> k
                       | Some v \<Rightarrow> k\<lparr>k_balance := v\<rparr>) ks"
  proof -
    have "ks1 = map (\<lambda>k. case map_of kb (k_id k) of None \<Rightarrow> k | Some v \<Rightarrow> k\<lparr>k_balance := v\<rparr>) ?ks"
      by (rule IH[THEN conjunct1])
    also have "\<dots> = map (\<lambda>k. case map_of (p # kb) (k_id k) of None \<Rightarrow> k
                       | Some v \<Rightarrow> k\<lparr>k_balance := v\<rparr>) ks"
    proof -
      have n: "map_of kb i = None" using ni by (simp add: map_of_eq_None_iff)
      then show ?thesis unfolding p by (rule set_balance_compose)
    qed
    finally show ?thesis .
  qed
  moreover have "\<forall>j \<in> fst ` set (p # kb). \<exists>k. filter (\<lambda>k. k_id k = j) ks = [k]"
  proof
    fix j assume j: "j \<in> fst ` set (p # kb)"
    show "\<exists>k. filter (\<lambda>k. k_id k = j) ks = [k]"
    proof (cases "j = i")
      case True
      with g show ?thesis by blast
    next
      case False
      with j have "j \<in> fst ` set kb" unfolding p by auto
      with IH[THEN conjunct2] obtain k where "filter (\<lambda>k. k_id k = j) ?ks = [k]" by blast
      then have "length (filter (\<lambda>k. k_id k = j) ks) = 1" using len[of j] by simp
      then show ?thesis by (cases "filter (\<lambda>k. k_id k = j) ks") auto
    qed
  qed
  ultimately show ?case by blast
qed


lemma updateutxos_unfold:
  "updateutxos getutxos self d account_id key_id =
     (case utxo_loop (keys d) (getutxos (addresslist self d account_id key_id)) []
             (transactions d) 0 of
        Inl e \<Rightarrow> (Inl e, self, d)
      | Inr (key_balances, txs, count_utxos) \<Rightarrow>
          (case balance_loop key_balances (keys d) 0 of
             Inl e \<Rightarrow> (Inl e, self, d)
           | Inr (ks, total_balance) \<Rightarrow>
               (Inr (), self\<lparr>hw_balance := total_balance\<rparr>,
                d\<lparr>transactions := txs, keys := ks,
                  wallets := map (\<lambda>x. if w_id x = hw_wallet_id self
                                       then x\<lparr>w_balance := total_balance\<rparr> else x)
                               (wallets d)\<rparr>)))"
proof -
  have "d\<lparr>transactions := transactions d\<rparr> = d" by simp
  then show ?thesis
    by (simp add: updateutxos_def addresslist_def wallet_keys_def)
qed

lemma distinct_filter_le_1:
  "distinct (map f xs) \<Longrightarrow> length (filter (\<lambda>x. f x = h) xs) \<le> 1"
proof (induction xs)
  case Nil
  then show ?case by simp
next
  case (Cons x xs)
  show ?case
  proof (cases "f x = h")
    case True
    from Cons.prems have "f x \<notin> f ` set xs" by simp
    have "\<forall>y \<in> set xs. f y \<noteq> h"
    proof (intro ballI notI)
      fix y assume y: "y \<in> set xs" and "f y = h"
      with True have "f x = f y" by simp
      then have "f x \<in> f ` set xs" using y by (rule image_eqI)
      with \<open>f x \<notin> f ` set xs\<close> show False by contradiction
    qed
    then have "filter (\<lambda>x. f x = h) xs = []"
      unfolding filter_empty_conv by blast
    with True show ?thesis by simp
  next
    case False
    with Cons show ?thesis by simp
  qed
qed

lemma new_hashes_disjoint:
  assumes "\<forall>t \<in> set new. f t \<notin> f ` set old"
  shows "set (map f old) \<inter> set (map f new) = {}"
proof (rule equals0I)
  fix y assume "y \<in> set (map f old) \<inter> set (map f new)"
  then have y1: "y \<in> f ` set old" and y2: "y \<in> f ` set new" by simp_all
  from y2 obtain t where t: "y = f t" "t \<in> set new" by (rule imageE)
  from assms t(2) have "f t \<notin> f ` set old" by (rule bspec)
  with y1 t(1) show False by simp
qed

text \<open>
Claim C10. In a ledger synchronisation that succeeds, a reported output whose
  transaction hash some stored row already has is not inserted, whatever its output
  index: the stored rows with that hash are exactly the rows that had it before. For a
  hash no stored row had, at most one row is stored afterwards, so a second output of
  the same transaction is never recorded, and a store with at most one row per
  transaction hash stays so. The cached balance of a key with a reported output is the
  sum of the values of all outputs reported for its address, the skipped ones included.
\<close>

theorem updateutxos_one_record_per_hash:
  assumes "updateutxos getutxos self d account_id key_id = (Inr (), self1, d1)"
  shows "(\<forall>h \<in> t_tx_hash ` set (transactions d).
            filter (\<lambda>t. t_tx_hash t = h) (transactions d1)
              = filter (\<lambda>t. t_tx_hash t = h) (transactions d)) \<and>
         (\<forall>h. h \<notin> t_tx_hash ` set (transactions d) \<longrightarrow>
            length (filter (\<lambda>t. t_tx_hash t = h) (transactions d1)) \<le> 1) \<and>
         (distinct (map t_tx_hash (transactions d)) \<longrightarrow>
            distinct (map t_tx_hash (transactions d1))) \<and>
         (\<forall>k \<in> set (keys d1).
            \<forall>u \<in> set (getutxos (addresslist self d account_id key_id)).
              u_address u = k_address k \<longrightarrow>
              k_balance k =
                sum_list (map u_value
                  (filter (\<lambda>u. u_address u = k_address k)
                     (getutxos (addresslist self d account_id key_id)))))"
proof -
  let ?us = "getutxos (addresslist self d account_id key_id)"
  let ?ks = "keys d"
  from assms obtain kb txs n where
    loop: "utxo_loop ?ks ?us [] (transactions d) 0 = Inr (kb, txs, n)"
    unfolding updateutxos_unfold by (auto split: sum.splits prod.splits)
  with assms obtain ks tot where bl: "balance_loop kb ?ks 0 = Inr (ks, tot)"
    unfolding updateutxos_unfold by (auto split: sum.splits prod.splits)
  from assms loop bl have tx1: "transactions d1 = txs" and ks1: "keys d1 = ks"
    unfolding updateutxos_unfold by auto
  from utxo_loop_rows[OF loop] obtain new where new: "txs = transactions d @ new"
    "distinct (map t_tx_hash new)"
    "\<forall>t \<in> set new. t_tx_hash t \<notin> t_tx_hash ` set (transactions d)" by blast
  have "distinct (map fst ([] :: (int \<times> int) list))" by simp
  note B = utxo_loop_balances[OF loop this]
  note B1 = B[THEN conjunct1]
  note B2 = B[THEN conjunct2, THEN conjunct1, rule_format]
  note B3 = B[THEN conjunct2, THEN conjunct2, THEN conjunct1, rule_format]
  note B4 = B[THEN conjunct2, THEN conjunct2, THEN conjunct2, rule_format]
  note R = balance_loop_rows[OF bl B1]
  note R1 = R[THEN conjunct1]
  note R2 = R[THEN conjunct2, rule_format]
  have c1: "\<forall>h \<in> t_tx_hash ` set (transactions d).
            filter (\<lambda>t. t_tx_hash t = h) (transactions d1)
              = filter (\<lambda>t. t_tx_hash t = h) (transactions d)"
  proof
    fix h assume "h \<in> t_tx_hash ` set (transactions d)"
    with new(3) have "filter (\<lambda>t. t_tx_hash t = h) new = []"
      by (auto simp: filter_empty_conv)
    then show "filter (\<lambda>t. t_tx_hash t = h) (transactions d1)
              = filter (\<lambda>t. t_tx_hash t = h) (transactions d)"
      unfolding tx1 new(1) by simp
  qed
  have c2: "\<forall>h. h \<notin> t_tx_hash ` set (transactions d) \<longrightarrow>
            length (filter (\<lambda>t. t_tx_hash t = h) (transactions d1)) \<le> 1"
  proof (intro allI impI)
    fix h assume "h \<notin> t_tx_hash ` set (transactions d)"
    then have "filter (\<lambda>t. t_tx_hash t = h) (transactions d) = []"
      by (auto simp: filter_empty_conv)
    then show "length (filter (\<lambda>t. t_tx_hash t = h) (transactions d1)) \<le> 1"
      unfolding tx1 new(1) using distinct_filter_le_1[OF new(2), of h] by simp
  qed
  have c3: "distinct (map t_tx_hash (transactions d)) \<longrightarrow>
            distinct (map t_tx_hash (transactions d1))"
  proof
    assume dd: "distinct (map t_tx_hash (transactions d))"
    have "set (map t_tx_hash (transactions d)) \<inter> set (map t_tx_hash new) = {}"
      using new(3) by (rule new_hashes_disjoint)
    with dd new(2) have "distinct (map t_tx_hash (transactions d) @ map t_tx_hash new)"
      by (simp only: distinct_append simp_thms)
    then show "distinct (map t_tx_hash (transactions d1))"
      unfolding tx1 new(1) by (simp only: map_append)
  qed
  have c4: "\<forall>k \<in> set (keys d1). \<forall>u \<in> set ?us.
              u_address u = k_address k \<longrightarrow>
              k_balance k = sum_list (map u_value (filter (\<lambda>u. u_address u = k_address k) ?us))"
  proof (intro ballI impI)
    fix k u assume k: "k \<in> set (keys d1)" and u: "u \<in> set ?us"
      and a: "u_address u = k_address k"
    let ?g = "\<lambda>k. case map_of kb (k_id k) of None \<Rightarrow> k | Some v \<Rightarrow> k\<lparr>k_balance := v\<rparr>"
    from k obtain k0 where k0: "k0 \<in> set ?ks" "k = ?g k0"
      unfolding ks1 R1 by auto
    have ga: "k_address k = k_address k0" and gi: "k_id k = k_id k0"
      unfolding k0(2) by (auto split: option.splits)
    from B2[OF u] obtain key where key: "filter (\<lambda>k. k_address k = u_address u) ?ks = [key]"
      by blast
    have "k0 \<in> set (filter (\<lambda>k. k_address k = u_address u) ?ks)"
      using k0(1) a ga by simp
    then have kk: "key = k0" unfolding key by simp
    let ?i = "k_id k0"
    have res_u: "map k_id (filter (\<lambda>k. k_address k = u_address u) ?ks) = [?i]"
      unfolding key kk by simp
    have ex: "\<exists>u \<in> set ?us. map k_id (filter (\<lambda>k. k_address k = u_address u) ?ks) = [?i]"
      using res_u u by (intro bexI[where x = u])
    have "?i \<in> fst ` set kb" unfolding B4[of ?i] using ex by simp
    then obtain b where b: "map_of kb ?i = Some b"
      by (metis (no_types, opaque_lifting) map_of_eq_None_iff not_Some_eq)
    have kb_k: "k_balance k = b" unfolding k0(2) by (simp add: b)
    from R2[OF \<open>?i \<in> fst ` set kb\<close>] obtain kk' where idf: "filter (\<lambda>k. k_id k = ?i) ?ks = [kk']"
      by blast
    have "k0 \<in> set (filter (\<lambda>k. k_id k = ?i) ?ks)" using k0(1) by simp
    then have kk': "kk' = k0" unfolding idf by simp
    have same: "\<And>u'. u' \<in> set ?us \<Longrightarrow>
      (map k_id (filter (\<lambda>k. k_address k = u_address u') ?ks) = [?i])
        = (u_address u' = k_address k)"
    proof -
      fix u' assume u': "u' \<in> set ?us"
      from B2[OF u'] obtain k' where k': "filter (\<lambda>k. k_address k = u_address u') ?ks = [k']"
        by blast
      show "(map k_id (filter (\<lambda>k. k_address k = u_address u') ?ks) = [?i])
        = (u_address u' = k_address k)"
      proof
        assume "map k_id (filter (\<lambda>k. k_address k = u_address u') ?ks) = [?i]"
        then have i': "k_id k' = ?i" unfolding k' by simp
        have m: "k' \<in> set (filter (\<lambda>k. k_address k = u_address u') ?ks)" unfolding k' by simp
        then have "k' \<in> set (filter (\<lambda>k. k_id k = ?i) ?ks)" using i' by simp
        then have "k' = k0" unfolding idf kk' by simp
        with m show "u_address u' = k_address k" using ga by simp
      next
        assume "u_address u' = k_address k"
        then have "u_address u' = u_address u" using a by simp
        then show "map k_id (filter (\<lambda>k. k_address k = u_address u') ?ks) = [?i]"
          using res_u by simp
      qed
    qed
    have "filter (\<lambda>u'. map k_id (filter (\<lambda>k. k_address k = u_address u') ?ks) = [?i]) ?us
        = filter (\<lambda>u'. u_address u' = k_address k) ?us"
      by (rule filter_cong[OF refl]) (rule same)
    with B3[of ?i] b have "b = sum_list (map u_value (filter (\<lambda>u'. u_address u' = k_address k) ?us))"
      by simp
    with kb_k show "k_balance k = sum_list (map u_value (filter (\<lambda>u. u_address u = k_address k) ?us))"
      by simp
  qed
  from c1 c2 c3 c4 show ?thesis by (intro conjI)
qed


theorem updateutxos_one_record_per_hash_witness:
  "updateutxos (\<lambda>addresses. [example_report 0 3, example_report 1 4]) example_hdwallet
       (example_db\<lparr>transactions := []\<rparr>) (Some 0) None
     = (Inr (), example_hdwallet\<lparr>hw_balance := 7\<rparr>,
        \<lparr>wallets = [example_wallet\<lparr>w_balance := 7\<rparr>],
         keys = [example_key\<lparr>k_balance := 7\<rparr>],
         transactions = [(example_utxo 3 ''t1'')\<lparr>t_confirmations := 10\<rparr>]\<rparr>) \<and>
   length (filter (\<lambda>t. t_tx_hash t = ''t1'')
      [(example_utxo 3 ''t1'')\<lparr>t_confirmations := 10\<rparr>]) \<le> 1"
proof -
  have e: "updateutxos (\<lambda>addresses. [example_report 0 3, example_report 1 4]) example_hdwallet
       (example_db\<lparr>transactions := []\<rparr>) (Some 0) None
     = (Inr (), example_hdwallet\<lparr>hw_balance := 7\<rparr>,
        \<lparr>wallets = [example_wallet\<lparr>w_balance := 7\<rparr>],
         keys = [example_key\<lparr>k_balance := 7\<rparr>],
         transactions = [(example_utxo 3 ''t1'')\<lparr>t_confirmations := 10\<rparr>]\<rparr>)"
    by (simp add: updateutxos_unfold example_report_def example_db_def example_key_def
        example_wallet_def example_utxo_def example_hdwallet_def scalar_def)
  from updateutxos_one_record_per_hash[OF e] e show ?thesis by simp
qed

subsection \<open>Parent ids of derived keys\<close>

text \<open>
Claim C8 says that every key below the root stores the id of its parent, a row that is
  in the store before the key is inserted. These are the rows that \<open>HDWallet.create\<close>
  stores for a new master key, with their id, path, depth and parent id: the keys of
  depth 1, 3 and 4 are stored with the parent id 0, which is the id of no row. Each call
  of \<open>_create_keys_from_path\<close> starts with \<open>parent_id = 0\<close>, and only a key derived after
  another one in the same call gets the id of the key before it.
\<close>

theorem create_stores_parent_id_0:
  "map (\<lambda>k. (k_id k, k_path k, k_depth k, k_parent_id k)) (keys (snd (example_create True)))
   = [(1, ''m'', 0, 0),
      (2, ''m/44'' @ hm, 1, 0),
      (3, ''m/44'/0'' @ hm, 2, 2),
      (4, ''m/44'/0'/0'' @ hm, 3, 0),
      (5, ''m/44'/0'/0'/0'', 4, 0),
      (6, ''m/44'/0'/0'/1'', 4, 0)]"
  by code_simp

subsection \<open>Creating an account that exists\<close>

lemma account_check_is_dead:
  "wallet_keys self d (Some a) name key_id change (Some 3) = []"
  by (simp add: wallet_keys_def filter_empty_conv split: option.splits)

lemma new_account_existing_eval:
  "(case example_create True of
      (Inr w, d) \<Rightarrow>
        map k_path (filter (\<lambda>k. k_wallet_id k = hw_wallet_id w \<and> k_purpose k = hw_purpose w
                               \<and> k_depth k = 3 \<and> k_account_id k = Some 0) (keys d))
          = [''m/44'/0'/0'' @ hm] \<and>
        fst (new_account (example_lib True) w d [] (Some 0)) = Inl DepthMismatch \<and>
        keys (snd (snd (new_account (example_lib True) w d [] (Some 0)))) = keys d
    | (Inl e, d) \<Rightarrow> False)"
  by code_simp

lemma new_account_existing_eval2:
  "(case example_create False of
      (Inr w, d) \<Rightarrow>
        fst (new_account (example_lib False) w d [] (Some 0)) = Inl KeyDerivationError
    | (Inl e, d) \<Rightarrow> False)"
  by code_simp

text \<open>
Claim C3 says that \<open>new_account\<close> fails with \<open>AccountExists\<close> for an account id that has
  a key of depth 3. The query behind the test, \<open>keys(account_id=..., depth=3)\<close>, asks for
  a depth above 3 and a depth of 3 at once and has no row in any store, so the test
  never fires. On the wallet that \<open>create\<close> made, which has the account key
  \<open>m/44'/0'/0'\<close>, the call \<open>new_account(account_id=0)\<close> goes on to the derivation, which
  takes that key as the closest ancestor and fails there with another error (which one
  depends on what the key library does with the level \<open>m\<close>); it creates no key.
\<close>

theorem new_account_existing_id:
  "wallet_keys self d (Some a) name key_id change (Some 3) = [] \<and>
   (case example_create True of
      (Inr w, d) \<Rightarrow>
        map k_path (filter (\<lambda>k. k_wallet_id k = hw_wallet_id w \<and> k_purpose k = hw_purpose w
                               \<and> k_depth k = 3 \<and> k_account_id k = Some 0) (keys d))
          = [''m/44'/0'/0'' @ hm] \<and>
        fst (new_account (example_lib True) w d [] (Some 0)) = Inl DepthMismatch \<and>
        keys (snd (snd (new_account (example_lib True) w d [] (Some 0)))) = keys d
    | (Inl e, d) \<Rightarrow> False) \<and>
   (case example_create False of
      (Inr w, d) \<Rightarrow>
        fst (new_account (example_lib False) w d [] (Some 0)) = Inl KeyDerivationError
    | (Inl e, d) \<Rightarrow> False)"
  using account_check_is_dead new_account_existing_eval new_account_existing_eval2
  by (intro conjI)

subsection \<open>The next account id\<close>

lemma sorted_le_last: "sorted xs \<Longrightarrow> x \<in> set xs \<Longrightarrow> (x::'a::linorder) \<le> last xs"
  by (induction xs) auto

lemma first_rev: "xs \<noteq> [] \<Longrightarrow> first (rev xs) = Some (last xs)"
  by (cases xs rule: rev_cases) (simp_all add: first_def)

lemma sort_key_not_Nil: "xs \<noteq> [] \<Longrightarrow> sort_key f xs \<noteq> []"
proof
  assume ne: "xs \<noteq> []" and e: "sort_key f xs = []"
  have "length (sort_key f xs) = length xs" by (rule length_sort)
  with e have "length xs = 0" by simp
  with ne show False by simp
qed

lemma first_desc_max:
  fixes f :: "'a \<Rightarrow> int option"
  assumes ne: "rows \<noteq> []" and ids: "\<forall>r \<in> set rows. \<exists>a. f r = Some a"
  shows "\<exists>r m. first (rev (sort_key f rows)) = Some r \<and> r \<in> set rows \<and> f r = Some m \<and>
               (\<forall>x \<in> set rows. \<exists>a. f x = Some a \<and> a \<le> m)"
proof -
  let ?srt = "sort_key f rows"
  have sne: "?srt \<noteq> []" using ne by (rule sort_key_not_Nil)
  then have fst: "first (rev ?srt) = Some (last ?srt)" by (rule first_rev)
  have "last ?srt \<in> set ?srt" using sne by (rule last_in_set)
  then have lin: "last ?srt \<in> set rows" by simp
  with ids obtain m where m: "f (last ?srt) = Some m" by blast
  have srt: "sorted (map f ?srt)" by (rule sorted_sort_key)
  have lm: "last (map f ?srt) = Some m" using sne m by (simp add: last_map)
  have "\<forall>x \<in> set rows. \<exists>a. f x = Some a \<and> a \<le> m"
  proof
    fix x assume x: "x \<in> set rows"
    then have "f x \<in> set (map f ?srt)" by simp
    with srt have "f x \<le> last (map f ?srt)" by (rule sorted_le_last)
    then have le: "f x \<le> Some m" unfolding lm .
    from ids x obtain a where a: "f x = Some a" by blast
    with le show "\<exists>a. f x = Some a \<and> a \<le> m" by simp
  qed
  with fst lin m show ?thesis by blast
qed

lemma next_account_id_max:
  assumes ne: "filter (\<lambda>k. k_wallet_id k = hw_wallet_id self \<and> k_purpose k = hw_purpose self)
                 (keys d) \<noteq> []"
    and ids: "\<forall>r \<in> set (filter (\<lambda>k. k_wallet_id k = hw_wallet_id self
                                     \<and> k_purpose k = hw_purpose self) (keys d)).
                \<exists>a. k_account_id r = Some a"
  shows "\<exists>m. next_account_id self d = Inr (m + 1) \<and>
             (\<exists>r \<in> set (filter (\<lambda>k. k_wallet_id k = hw_wallet_id self
                                     \<and> k_purpose k = hw_purpose self) (keys d)).
                k_account_id r = Some m) \<and>
             (\<forall>r \<in> set (filter (\<lambda>k. k_wallet_id k = hw_wallet_id self
                                     \<and> k_purpose k = hw_purpose self) (keys d)).
                \<exists>a. k_account_id r = Some a \<and> a \<le> m)"
proof -
  from first_desc_max[OF ne ids] obtain r m where
    r: "first (rev (sort_key k_account_id
          (filter (\<lambda>k. k_wallet_id k = hw_wallet_id self \<and> k_purpose k = hw_purpose self)
             (keys d)))) = Some r"
    "r \<in> set (filter (\<lambda>k. k_wallet_id k = hw_wallet_id self \<and> k_purpose k = hw_purpose self)
             (keys d))"
    "k_account_id r = Some m"
    "\<forall>x \<in> set (filter (\<lambda>k. k_wallet_id k = hw_wallet_id self \<and> k_purpose k = hw_purpose self)
             (keys d)). \<exists>a. k_account_id x = Some a \<and> a \<le> m"
    by blast
  have "next_account_id self d = Inr (m + 1)"
    unfolding next_account_id_def order_by_account_id_desc_def r(1) by (simp add: r(3))
  with r(2,3,4) show ?thesis by blast
qed

text \<open>
Claim C4 says that \<open>new_account\<close> without an account id takes the id 0 when the wallet
  has no key for its purpose. In that case the first row of the query is \<open>None\<close>, and
  reading its \<open>account_id\<close> raises \<open>AttributeError\<close>; nothing is created. The lemma
  before the theorem is the part of the claim that holds: when the wallet has keys for
  its purpose, all with an account id, the next id is one more than the largest of them.
\<close>

theorem new_account_no_keys:
  "filter (\<lambda>k. k_wallet_id k = hw_wallet_id self \<and> k_purpose k = hw_purpose self) (keys d) = []
   \<Longrightarrow> new_account lib self d name None = (Inl PyAttributeError, self, d)"
  by (simp add: new_account_def next_account_id_def order_by_account_id_desc_def first_def)

theorem new_account_no_keys_witness:
  "fst (create (example_lib True) (snd (example_create True)) ''Second'' ''xprv:m'' []
            (Some ''bitcoin'') 0 44) = Inl MissingMasterKey \<and>
   HDWallet_init example_second_db (WalletName ''Second'') None = Inr example_second_wallet \<and>
   new_account (example_lib True) example_second_wallet example_second_db [] None
     = (Inl PyAttributeError, example_second_wallet, example_second_db)"
proof -
  have c: "fst (create (example_lib True) (snd (example_create True)) ''Second'' ''xprv:m'' []
            (Some ''bitcoin'') 0 44) = Inl MissingMasterKey"
    by code_simp
  have i: "HDWallet_init example_second_db (WalletName ''Second'') None
             = Inr example_second_wallet"
    by code_simp
  have h: "filter (\<lambda>k. k_wallet_id k = hw_wallet_id example_second_wallet
                         \<and> k_purpose k = hw_purpose example_second_wallet)
             (keys example_second_db) = []"
    by code_simp
  from new_account_no_keys[OF h] c i show ?thesis by simp
qed

subsection \<open>Validation of a key path\<close>

lemma key_for_path_rejected:
  "validate_key_path lib self path = Inl e \<Longrightarrow>
   key_for_path lib self d path name account_id change False = (Inl e, self, d)"
  by (simp add: key_for_path_def)

lemma validate_purpose_mismatch:
  assumes "parse_bip44_path path = Inr pd"
    and "(if pd_purpose pd = [] then Inr 0 else py_int (py_replace (pd_purpose pd) hm [])) = Inr p"
    and "p \<noteq> hw_purpose self"
  shows "validate_key_path lib self path = Inl PurposeMismatch"
  using assms by (simp add: validate_key_path_def)

lemma validate_cointype_mismatch:
  assumes "parse_bip44_path path = Inr pd"
    and "(if pd_purpose pd = [] then Inr 0 else py_int (py_replace (pd_purpose pd) hm []))
           = Inr (hw_purpose self)"
    and "(if pd_cointype pd = [] then Inr 0 else py_int (py_replace (pd_cointype pd) hm []))
           = Inr c"
    and "c \<noteq> bip44_cointype lib (Some (hw_network_name self))"
  shows "validate_key_path lib self path = Inl CointypeMismatch"
  using assms by (simp add: validate_key_path_def)

lemma validate_unhardened:
  assumes "parse_bip44_path path = Inr pd"
    and "(if pd_purpose pd = [] then Inr 0 else py_int (py_replace (pd_purpose pd) hm []))
           = Inr (hw_purpose self)"
    and "(if pd_cointype pd = [] then Inr 0 else py_int (py_replace (pd_cointype pd) hm []))
           = Inr (bip44_cointype lib (Some (hw_network_name self)))"
    and "pd_purpose pd \<noteq> []" and "pd_cointype pd \<noteq> []" and "pd_account pd \<noteq> []"
    and "\<not> (last (pd_purpose pd) = CHR 0x27 \<and> last (pd_cointype pd) = CHR 0x27
            \<and> last (pd_account pd) = CHR 0x27)"
  shows "validate_key_path lib self path = Inl UnhardenedPath"
  using assms by (auto simp: validate_key_path_def last_is_hardened_def split: bool.splits)

text \<open>
Claim C6 says that \<open>key_for_path\<close> in strict mode fails with \<open>UnhardenedPath\<close> unless the
  purpose, coin type and account levels all carry the hardening marker. For a path with
  no account level, whose purpose and coin type are those of the wallet, the test reads
  the last character of the empty account level and the call ends in \<open>IndexError\<close>; the
  same happens for a path with no coin type level in a wallet of coin type 0. The lemmas
  before the theorem are the parts of the claim that hold: a failed validation creates
  no key, a differing purpose gives \<open>PurposeMismatch\<close>, a differing coin type gives
  \<open>CointypeMismatch\<close>, and when the three levels are there and one lacks the marker the
  result is \<open>UnhardenedPath\<close>.
\<close>

theorem key_for_path_short_path:
  "validate_key_path (example_lib True) example_hdwallet (''m/44'/0'' @ hm) = Inl PyIndexError \<and>
   key_for_path (example_lib True) example_hdwallet example_db (''m/44'/0'' @ hm) [] 0 0 False
     = (Inl PyIndexError, example_hdwallet, example_db) \<and>
   validate_key_path (example_lib True) example_hdwallet (''m/44'' @ hm) = Inl PyIndexError"
  by code_simp

subsection \<open>Deriving a path twice\<close>

lemma from_key_existing:
  assumes "first (filter (\<lambda>r. k_key_wif r = hd_extended_wif k) (keys d)) = Some r"
  shows "from_key lib d name wallet_id key (Some k) account_id network change purpose parent_id
           path = (HDWalletKey_init d (k_id r) (Some k), d)"
  using assms by (simp add: from_key_def)

lemma key_for_path_twice_normalised:
  "(case example_create True of
      (Inr w, d) \<Rightarrow>
        (case key_for_path (example_lib True) w d ''m/44'/0'/0'/0/0'' [] 0 0 False of
           (r1, w1, d1) \<Rightarrow>
             (case key_for_path (example_lib True) w1 d1 ''m/44'/0'/0'/0/0'' [] 0 0 False of
                (r2, w2, d2) \<Rightarrow>
                  map_sum id hk_key_id r1 = Inr 7 \<and> length (keys d) = 6 \<and>
                  length (keys d1) = 7 \<and> map_sum id hk_key_id r2 = Inr 7 \<and> d2 = d1))
    | (Inl e, d) \<Rightarrow> False)"
  by code_simp

lemma key_for_path_twice_eval:
  "(case example_create True of
      (Inr w, d) \<Rightarrow>
        (case key_for_path (example_lib True) w d ''m/44h/0h/0h/0/0'' [] 0 0 False of
           (r1, w1, d1) \<Rightarrow>
             map_sum id hk_key_id r1 = Inr 7 \<and> length (keys d) = 6 \<and> length (keys d1) = 7 \<and>
             map k_path (filter (\<lambda>k. k_id k = 7) (keys d1)) = [''m/44'/0'/0'/0/0''] \<and>
             fst (key_for_path (example_lib True) w1 d1 ''m/44h/0h/0h/0/0'' [] 0 0 False)
               = Inl DepthMismatch)
    | (Inl e, d) \<Rightarrow> False)"
  by code_simp

lemma key_for_path_twice_eval2:
  "(case example_create False of
      (Inr w, d) \<Rightarrow>
        (case key_for_path (example_lib False) w d ''m/44h/0h/0h/0/0'' [] 0 0 False of
           (r1, w1, d1) \<Rightarrow>
             map_sum id hk_key_id r1 = Inr 7 \<and>
             fst (key_for_path (example_lib False) w1 d1 ''m/44h/0h/0h/0/0'' [] 0 0 False)
               = Inl KeyDerivationError)
    | (Inl e, d) \<Rightarrow> False)"
  by code_simp

text \<open>
Claim C2 says that deriving the same path twice returns the same key id and inserts no
  second row. On the wallet that \<open>create\<close> made, \<open>key_for_path("m/44h/0h/0h/0/0")\<close> first
  inserts key 7 with the normalised path \<open>m/44'/0'/0'/0/0\<close>. The second call with the same
  argument finds that row, but compares its path with the argument as it was written,
  not with the normalised path, does not return the row, and derives the whole
  normalised path again below key 7, which fails (with which error depends on what the
  key library does with the level \<open>m\<close>). The lemmas before the theorem are the parts of
  the claim that hold: \<open>from_key\<close> returns the stored key for key material that is in
  the store, and the two calls agree for the path written in normal form.
\<close>

theorem key_for_path_twice:
  "(case example_create True of
      (Inr w, d) \<Rightarrow>
        (case key_for_path (example_lib True) w d ''m/44h/0h/0h/0/0'' [] 0 0 False of
           (r1, w1, d1) \<Rightarrow>
             map_sum id hk_key_id r1 = Inr 7 \<and> length (keys d) = 6 \<and> length (keys d1) = 7 \<and>
             map k_path (filter (\<lambda>k. k_id k = 7) (keys d1)) = [''m/44'/0'/0'/0/0''] \<and>
             fst (key_for_path (example_lib True) w1 d1 ''m/44h/0h/0h/0/0'' [] 0 0 False)
               = Inl DepthMismatch)
    | (Inl e, d) \<Rightarrow> False) \<and>
   (case example_create False of
      (Inr w, d) \<Rightarrow>
        (case key_for_path (example_lib False) w d ''m/44h/0h/0h/0/0'' [] 0 0 False of
           (r1, w1, d1) \<Rightarrow>
             map_sum id hk_key_id r1 = Inr 7 \<and>
             fst (key_for_path (example_lib False) w1 d1 ''m/44h/0h/0h/0/0'' [] 0 0 False)
               = Inl KeyDerivationError)
    | (Inl e, d) \<Rightarrow> False)"
  using key_for_path_twice_eval key_for_path_twice_eval2 by (intro conjI)

end
